theory Spec2Isabelle
  imports Main "HOL-Library.AList"
begin

section \<open>Python values, failures and string operations\<close>

text \<open>
  The module \<^verbatim>\<open>manic/externals_description.py\<close> works on Python dictionaries whose
  values are strings, booleans or nested dictionaries. A dictionary is an association
  list in insertion order; \<open>map_of\<close> is the lookup, \<open>AList.update\<close> the item assignment
  (an existing key keeps its place, a new key goes last) and \<open>AList.delete\<close> is
  \<^verbatim>\<open>del\<close>. The keys of a Python dictionary are distinct.
\<close>

datatype pyval = Str string | Bool bool | Dict "(string \<times> pyval) list"

type_synonym pydict = "(string \<times> pyval) list"

text \<open>
  Every way the code stops is a value. Modelled from the spec: \<^verbatim>\<open>fatal_error\<close> of the
  absent module \<^verbatim>\<open>utils\<close> is the sink that takes a message and unconditionally ends
  the current operation; it is the constructor \<open>Fatal\<close>. The other constructors are the
  Python exceptions that the module lets escape.
\<close>

datatype error =
    Fatal string
  | KeyError string
  | IndexError
  | TypeError
  | ValueError
  | OSError string
  | DuplicateSectionError string
  | MissingSectionHeaderError
  | BooleanFormatError string
  | Unmodelled string

fun bind :: "error + 'a \<Rightarrow> ('a \<Rightarrow> error + 'b) \<Rightarrow> error + 'b" where
  "bind (Inl e) f = Inl e"
| "bind (Inr x) f = f x"

definition dq :: string where
  "dq = [CHR 0x22]"

definition sq :: string where
  "sq = [CHR 0x27]"

definition nl :: string where
  "nl = [CHR 0x0A]"

text \<open>
  A string is a list of characters, and a character is a code point below 256. The
  characters \<^verbatim>\<open>str.strip()\<close> and \<^verbatim>\<open>int()\<close> treat as white space are those for
  which \<^verbatim>\<open>str.isspace\<close> holds: below 256 these are the space, the controls
  \<^verbatim>\<open>U+0009\<close> to \<^verbatim>\<open>U+000D\<close> and \<^verbatim>\<open>U+001C\<close> to \<^verbatim>\<open>U+001F\<close>, the next-line control
  \<^verbatim>\<open>U+0085\<close> and the no-break space \<^verbatim>\<open>U+00A0\<close>.
\<close>

definition py_isspace :: "char \<Rightarrow> bool" where
  "py_isspace c = (c \<in> set [CHR 0x20, CHR 0x09, CHR 0x0A, CHR 0x0B, CHR 0x0C, CHR 0x0D,
                              CHR 0x1C, CHR 0x1D, CHR 0x1E, CHR 0x1F, CHR 0x85, CHR 0xA0])"

definition strip_with :: "(char \<Rightarrow> bool) \<Rightarrow> string \<Rightarrow> string" where
  "strip_with p s = rev (dropWhile p (rev (dropWhile p s)))"

definition py_strip :: "string \<Rightarrow> string" where
  "py_strip s = strip_with py_isspace s"

definition py_strip_chars :: "string \<Rightarrow> string \<Rightarrow> string" where
  "py_strip_chars cs s = strip_with (\<lambda>c. c \<in> set cs) s"

text \<open>
  \<^verbatim>\<open>s.split(sep)\<close> with a one-character separator, and \<^verbatim>\<open>re.split\<close> on a character
  class: a cut at every separator, empty pieces kept, never an empty list.
\<close>

fun split_on :: "(char \<Rightarrow> bool) \<Rightarrow> string \<Rightarrow> string list" where
  "split_on p [] = [[]]"
| "split_on p (x # xs) =
     (if p x then [] # split_on p xs
      else (case split_on p xs of
              [] \<Rightarrow> [[x]]
            | w # ws \<Rightarrow> (x # w) # ws))"

definition py_split :: "char \<Rightarrow> string \<Rightarrow> string list" where
  "py_split c s = split_on (\<lambda>x. x = c) s"

text \<open>
  \<^verbatim>\<open>str.lower()\<close>: below 256 the letters with a lower-case form are \<^verbatim>\<open>A\<close> to
  \<^verbatim>\<open>Z\<close> and \<^verbatim>\<open>U+00C0\<close> to \<^verbatim>\<open>U+00DE\<close> without the multiplication sign
  \<^verbatim>\<open>U+00D7\<close>; the lower-case form is 32 code points further.
\<close>

definition py_lower_char :: "char \<Rightarrow> char" where
  "py_lower_char c =
     (let n = (of_char c :: nat)
      in if (65 \<le> n \<and> n \<le> 90) \<or> (192 \<le> n \<and> n \<le> 222 \<and> n \<noteq> 215) then char_of (n + 32) else c)"

definition py_lower :: "string \<Rightarrow> string" where
  "py_lower s = map py_lower_char s"

text \<open>
  \<^verbatim>\<open>int(s)\<close> on a string: white space around, an optional sign, then decimal digits
  in groups joined by single underscores. \<open>None\<close> is the \<^verbatim>\<open>ValueError\<close>.
\<close>

definition is_digit :: "char \<Rightarrow> bool" where
  "is_digit c = (c \<in> set ''0123456789'')"

definition digit_val :: "char \<Rightarrow> nat" where
  "digit_val c = of_char c - 48"

definition digits_to_nat :: "string \<Rightarrow> nat" where
  "digits_to_nat ds = foldl (\<lambda>acc c. 10 * acc + digit_val c) 0 ds"

definition py_int :: "string \<Rightarrow> int option" where
  "py_int s =
     (let t = py_strip s;
          neg = (case t of [] \<Rightarrow> False | c # _ \<Rightarrow> c = CHR ''-'');
          body = (case t of [] \<Rightarrow> [] | c # r \<Rightarrow> if c = CHR ''-'' \<or> c = CHR ''+'' then r else t);
          groups = py_split (CHR ''_'') body
      in if list_all (\<lambda>g. g \<noteq> [] \<and> list_all is_digit g) groups
         then Some ((if neg then - 1 else 1) * int (digits_to_nat (concat groups)))
         else None)"

text \<open>\<^verbatim>\<open>str(n)\<close> of an integer, as the f-strings of the messages print it.\<close>

function str_nat :: "nat \<Rightarrow> string" where
  "str_nat n = (if n < 10 then [char_of (48 + n)] else str_nat (n div 10) @ [char_of (48 + n mod 10)])"
  by pat_completeness auto
termination
  by (relation "measure (\<lambda>n. n)") auto

declare str_nat.simps [simp del]

definition str_int :: "int \<Rightarrow> string" where
  "str_int i = (if i < 0 then ''-'' @ str_nat (nat (- i)) else str_nat (nat i))"

section \<open>The configuration document\<close>

text \<open>
  A \<^verbatim>\<open>ConfigParser\<close> object after reading: its sections in order, each with its
  items in order. The parser's own reading of the file, its \<^verbatim>\<open>DEFAULT\<close> section and
  its \<^verbatim>\<open>%\<close> interpolation are outside the module and not modelled: a document here is
  what \<^verbatim>\<open>sections()\<close> and \<^verbatim>\<open>items(section)\<close> return.
\<close>

type_synonym config = "(string \<times> (string \<times> string) list) list"

definition DESCRIPTION_SECTION :: string where
  "DESCRIPTION_SECTION = ''externals_description''"

definition VERSION_ITEM :: string where
  "VERSION_ITEM = ''schema_version''"

text \<open>
  Modelled from the spec: \<^verbatim>\<open>VERSION_SEPERATOR\<close> of the absent module
  \<^verbatim>\<open>global_constants\<close>; the version is a dotted string.
\<close>

definition VERSION_SEPERATOR :: char where
  "VERSION_SEPERATOR = CHR ''.''"

text \<open>\<^verbatim>\<open>cfg.get(section, option)\<close>; \<open>None\<close> is NoSectionError or NoOptionError.\<close>

definition cfg_get :: "config \<Rightarrow> string \<Rightarrow> string \<Rightarrow> string option" where
  "cfg_get cfg section option =
     (case map_of cfg section of
        None \<Rightarrow> None
      | Some items \<Rightarrow> map_of items option)"

section \<open>The schema version\<close>

text \<open>
  One component of the version: \<^verbatim>\<open>int(version[i].strip())\<close>. The index is read first
  (IndexError past the end), then the integer (ValueError).
\<close>

definition version_component :: "string list \<Rightarrow> nat \<Rightarrow> error + int" where
  "version_component version i =
     (if i < length version
      then (case py_int (py_strip (version ! i)) of
              None \<Rightarrow> Inl ValueError
            | Some n \<Rightarrow> Inr n)
      else Inl IndexError)"

definition version_format_msg :: "string \<Rightarrow> string" where
  "version_format_msg version_str =
     ''Config file schema version must have integer digits for '' @
     ''major, minor and patch versions. '' @
     ''Received '' @ dq @ version_str @ dq"

definition missing_version_msg :: string where
  "missing_version_msg =
     ''externals description file must have the required '' @
     ''section: '' @ dq @ DESCRIPTION_SECTION @ dq @ '' and item '' @ dq @ VERSION_ITEM @ dq"

text \<open>
  \<^verbatim>\<open>get_cfg_schema_version\<close>. The \<^verbatim>\<open>try\<close> around the three conversions catches
  \<^verbatim>\<open>ValueError\<close> only, so that is the one failure turned into the fatal message.
\<close>

definition parse_version_str :: "string \<Rightarrow> error + (int \<times> int \<times> int)" where
  "parse_version_str semver_str =
     (case split_on (\<lambda>c. c = CHR ''-'' \<or> c = CHR ''+'') semver_str of
        [] \<Rightarrow> Inl IndexError
      | version_str # _ \<Rightarrow>
          (let version = py_split VERSION_SEPERATOR version_str in
           case bind (version_component version 0) (\<lambda>major.
                bind (version_component version 1) (\<lambda>minor.
                bind (version_component version 2) (\<lambda>patch.
                Inr (major, minor, patch)))) of
             Inl ValueError \<Rightarrow> Inl (Fatal (version_format_msg version_str))
           | Inl e \<Rightarrow> Inl e
           | Inr v \<Rightarrow> Inr v))"

definition get_cfg_schema_version :: "config \<Rightarrow> error + (int \<times> int \<times> int)" where
  "get_cfg_schema_version model_cfg =
     (case cfg_get model_cfg DESCRIPTION_SECTION VERSION_ITEM of
        None \<Rightarrow> Inl (Fatal missing_version_msg)
      | Some semver_str \<Rightarrow> parse_version_str semver_str)"

text \<open>\<^verbatim>\<open>ExternalsDescription._verify_schema_version\<close>: supported against declared.\<close>

definition version_text :: "int \<times> int \<times> int \<Rightarrow> string" where
  "version_text v =
     (case v of (major, minor, patch) \<Rightarrow>
        str_int major @ ''.'' @ str_int minor @ ''.'' @ str_int patch)"

definition dev_error_msg :: "string \<Rightarrow> string \<Rightarrow> string" where
  "dev_error_msg known received =
     ''DEV_ERROR: version '' @ dq @ known @ dq @ '' parser received '' @
     ''version '' @ dq @ received @ dq @ '' input.''"

definition incompatible_msg :: "string \<Rightarrow> string \<Rightarrow> string" where
  "incompatible_msg known received =
     ''Incompatible schema version:'' @ nl @
     ''  User supplied schema version '' @ dq @ received @ dq @ '' is too new.'' @ dq @ nl @
     ''  Can only process version '' @ dq @ known @ dq @ '' files and '' @
     ''older.''"

definition verify_schema_version :: "int \<times> int \<times> int \<Rightarrow> int \<times> int \<times> int \<Rightarrow> error + unit" where
  "verify_schema_version schema input =
     (case schema of (schema_major, schema_minor, schema_patch) \<Rightarrow>
      case input of (input_major, input_minor, input_patch) \<Rightarrow>
        (let known = version_text schema; received = version_text input in
         if input_major \<noteq> schema_major then Inl (Fatal (dev_error_msg known received))
         else if input_minor > schema_minor then Inl (Fatal (incompatible_msg known received))
         else Inr ()))"

text \<open>The version \<^verbatim>\<open>ExternalsDescriptionConfigV1\<close> supports.\<close>

definition V1_SCHEMA :: "int \<times> int \<times> int" where
  "V1_SCHEMA = (1, 1, 0)"

section \<open>The submodule status query\<close>

text \<open>
  The process state the module changes is its working directory. Directories are named
  by absolute paths, as the callers pass them (\<^verbatim>\<open>os.path.abspath\<close>, \<^verbatim>\<open>os.getcwd\<close>);
  \<open>is_dir\<close> says which paths are directories, and \<^verbatim>\<open>os.chdir\<close> to any other path
  raises \<^verbatim>\<open>OSError\<close> and leaves the working directory as it was.
\<close>

record process =
  cwd :: string

definition os_chdir :: "(string \<Rightarrow> bool) \<Rightarrow> string \<Rightarrow> process \<Rightarrow> error + process" where
  "os_chdir is_dir path p = (if is_dir path then Inr (p\<lparr>cwd := path\<rparr>) else Inl (OSError path))"

text \<open>One entry of the status mapping: \<^verbatim>\<open>{"hash": ..., "status": ..., "tag": ...}\<close>.\<close>

record submod_status =
  sm_hash :: string
  sm_status :: char
  sm_tag :: "string option"

type_synonym submodules = "(string \<times> submod_status) list"

text \<open>The loop over the output lines of \<^verbatim>\<open>git submodule status\<close>.\<close>

fun status_lines :: "string list \<Rightarrow> submodules \<Rightarrow> error + submodules" where
  "status_lines [] submodules = Inr submodules"
| "status_lines (submod # rest) submodules =
     (case submod of
        [] \<Rightarrow> status_lines rest submodules
      | status # line \<Rightarrow>
          (let items = py_split (CHR '' '') line;
               tag = (if length items > 2 then Some (items ! 2) else None)
           in if length items > 1
              then status_lines rest
                     (AList.update (items ! 1)
                        \<lparr>sm_hash = items ! 0, sm_status = status, sm_tag = tag\<rparr> submodules)
              else Inl IndexError))"

text \<open>
  \<^verbatim>\<open>git_submodule_status\<close>. Modelled from the spec: \<^verbatim>\<open>execute_subprocess\<close> of the
  absent module \<^verbatim>\<open>utils\<close> is the external process call; here it is a parameter that
  maps the command and the directory it runs in to the output or to the error it raises.
  The function has no \<^verbatim>\<open>try\<close>: whatever is raised after the first
  \<^verbatim>\<open>os.chdir\<close> leaves before the second one.
\<close>

definition git_submodule_status ::
  "(string \<Rightarrow> bool) \<Rightarrow> (string list \<Rightarrow> string \<Rightarrow> error + string) \<Rightarrow> string \<Rightarrow> process
     \<Rightarrow> process \<times> (error + submodules)" where
  "git_submodule_status is_dir execute_subprocess repo_dir p0 =
     (let cwd0 = cwd p0 in
      case os_chdir is_dir repo_dir p0 of
        Inl e \<Rightarrow> (p0, Inl e)
      | Inr p1 \<Rightarrow>
          (case execute_subprocess [''git'', ''submodule'', ''status''] (cwd p1) of
             Inl e \<Rightarrow> (p1, Inl e)
           | Inr git_output \<Rightarrow>
               (case status_lines (py_split (CHR 0x0A) git_output) [] of
                  Inl e \<Rightarrow> (p1, Inl e)
                | Inr submodules \<Rightarrow>
                    (case os_chdir is_dir cwd0 p1 of
                       Inl e \<Rightarrow> (p1, Inl e)
                     | Inr p2 \<Rightarrow> (p2, Inr submodules)))))"

section \<open>Reading a submodules manifest\<close>

text \<open>The keywords of \<^verbatim>\<open>ExternalsDescription\<close>.\<close>

definition EXTERNALS :: string where "EXTERNALS = ''externals''"
definition BRANCH :: string where "BRANCH = ''branch''"
definition SUBMODULE :: string where "SUBMODULE = ''from_submodule''"
definition HASH :: string where "HASH = ''hash''"
definition PATH :: string where "PATH = ''local_path''"
definition PROTOCOL :: string where "PROTOCOL = ''protocol''"
definition REPO :: string where "REPO = ''repo''"
definition REPO_URL :: string where "REPO_URL = ''repo_url''"
definition REQUIRED :: string where "REQUIRED = ''required''"
definition TAG :: string where "TAG = ''tag''"
definition SPARSE :: string where "SPARSE = ''sparse''"
definition PROTOCOL_EXTERNALS_ONLY :: string where "PROTOCOL_EXTERNALS_ONLY = ''externals_only''"
definition PROTOCOL_GIT :: string where "PROTOCOL_GIT = ''git''"
definition PROTOCOL_SVN :: string where "PROTOCOL_SVN = ''svn''"
definition GIT_SUBMODULES_FILENAME :: string where "GIT_SUBMODULES_FILENAME = ''.gitmodules''"

definition KNOWN_PRROTOCOLS :: "string list" where
  "KNOWN_PRROTOCOLS = [PROTOCOL_GIT, PROTOCOL_SVN, PROTOCOL_EXTERNALS_ONLY]"

lemmas kw_defs =
  EXTERNALS_def BRANCH_def SUBMODULE_def HASH_def PATH_def PROTOCOL_def REPO_def
  REPO_URL_def REQUIRED_def TAG_def SPARSE_def PROTOCOL_EXTERNALS_ONLY_def
  PROTOCOL_GIT_def PROTOCOL_SVN_def GIT_SUBMODULES_FILENAME_def KNOWN_PRROTOCOLS_def
  DESCRIPTION_SECTION_def VERSION_ITEM_def

text \<open>
  \<^verbatim>\<open>parse_submodules_desc_section\<close>: the path and the url of one section. What
  \<^verbatim>\<open>logging.warning\<close> receives is returned as the third component.
\<close>

definition unknown_property_msg :: "string \<Rightarrow> string \<Rightarrow> string" where
  "unknown_property_msg key file_path =
     ''WARNING: Ignoring unknown '' @ key @ '' property, in '' @ file_path"

definition desc_item ::
  "string \<Rightarrow> string option \<times> string option \<times> string list \<Rightarrow> string \<times> string
     \<Rightarrow> string option \<times> string option \<times> string list" where
  "desc_item file_path acc item =
     (case acc of (path, url, warnings) \<Rightarrow>
        (let name = py_strip (fst item) in
         if name = ''path'' then (Some (py_strip (snd item)), url, warnings)
         else if name = ''url'' then (path, Some (py_strip (snd item)), warnings)
         else if name = ''branch'' then (path, url, warnings)
         else (path, url, warnings @ [unknown_property_msg (fst item) file_path])))"

definition parse_submodules_desc_section ::
  "(string \<times> string) list \<Rightarrow> string \<Rightarrow> string option \<times> string option \<times> string list" where
  "parse_submodules_desc_section section_items file_path =
     foldl (desc_item file_path) (None, None, []) section_items"

text \<open>
  \<^verbatim>\<open>ConfigParser.add_section\<close> and \<^verbatim>\<open>ConfigParser.set\<close> on the document being
  built. The option name is lower-cased by the parser.
\<close>

definition add_section :: "config \<Rightarrow> string \<Rightarrow> error + config" where
  "add_section cfg name =
     (if name = ''DEFAULT'' then Inl ValueError
      else if map_of cfg name \<noteq> None then Inl (DuplicateSectionError name)
      else Inr (cfg @ [(name, [])]))"

definition cfg_set :: "config \<Rightarrow> string \<Rightarrow> string \<Rightarrow> string \<Rightarrow> config" where
  "cfg_set cfg section option v = AList.map_entry section (AList.update (py_lower option) v) cfg"

text \<open>\<^verbatim>\<open>os.path.join\<close> of two POSIX paths.\<close>

definition path_join :: "string \<Rightarrow> string \<Rightarrow> string" where
  "path_join a b =
     (if b \<noteq> [] \<and> hd b = CHR ''/'' then b
      else if a = [] \<or> last a = CHR ''/'' then a @ b
      else a @ ''/'' @ b)"

definition missing_path_msg :: "string \<Rightarrow> string" where
  "missing_path_msg sec_name = ''Submodule '' @ sec_name @ '' missing path''"

definition missing_url_msg :: "string \<Rightarrow> string" where
  "missing_url_msg sec_name = ''Submodule '' @ sec_name @ '' missing url''"

definition no_status_section_msg :: "string \<Rightarrow> string" where
  "no_status_section_msg submod_name =
     ''submodule status has no section, '' @ sq @ submod_name @ sq @
     nl @ ''Check section names in externals config file''"

definition missing_submodules_file_msg :: "string \<Rightarrow> string \<Rightarrow> string" where
  "missing_submodules_file_msg file_name file_path =
     ''ERROR: submodules description file, '' @ dq @ file_name @ dq @ '', does not '' @
     ''exist at path:'' @ nl @ ''    '' @ file_path"

text \<open>
  The body of the loop of \<^verbatim>\<open>read_gitmodules_file\<close> over the sections of the
  manifest: a section whose name starts with \<^verbatim>\<open>submodule\<close> becomes a section of the
  externals document. \<open>section_name\<close> is \<^verbatim>\<open>section[9:].strip(' "')\<close>.
\<close>

definition section_name :: "string \<Rightarrow> string" where
  "section_name section = py_strip_chars ('' '' @ dq) (drop 9 section)"

definition convert_section ::
  "string \<Rightarrow> submodules \<Rightarrow> config \<Rightarrow> string \<times> (string \<times> string) list \<Rightarrow> error + config" where
  "convert_section file_path submods externals_description sec =
     (case sec of (section, section_items) \<Rightarrow>
        if take 9 section = ''submodule'' then
          (let sec_name = section_name section in
           bind (add_section externals_description sec_name) (\<lambda>ed.
             case parse_submodules_desc_section section_items file_path of
               (None, _, _) \<Rightarrow> Inl (Fatal (missing_path_msg sec_name))
             | (Some path, None, _) \<Rightarrow> Inl (Fatal (missing_url_msg sec_name))
             | (Some path, Some url, _) \<Rightarrow>
                 (let ed = cfg_set ed sec_name PATH path;
                      ed = cfg_set ed sec_name PROTOCOL ''git'';
                      ed = cfg_set ed sec_name REPO_URL url;
                      ed = cfg_set ed sec_name REQUIRED ''True'';
                      submod_name = (if map_of submods sec_name \<noteq> None then sec_name else path)
                  in case map_of submods submod_name of
                       Some st \<Rightarrow> Inr (cfg_set ed sec_name HASH (sm_hash st))
                     | None \<Rightarrow> Inl (Fatal (no_status_section_msg submod_name)))))
        else Inr externals_description)"

fun convert_sections ::
  "string \<Rightarrow> submodules \<Rightarrow> config \<Rightarrow> (string \<times> (string \<times> string) list) list \<Rightarrow> error + config" where
  "convert_sections file_path submods ed [] = Inr ed"
| "convert_sections file_path submods ed (sec # secs) =
     bind (convert_section file_path submods ed sec) (\<lambda>ed'.
       convert_sections file_path submods ed' secs)"

text \<open>
  \<^verbatim>\<open>read_gitmodules_file\<close>. What the function takes from outside is given: whether
  \<^verbatim>\<open>file_name\<close> exists, what the parser made of the left-stripped lines
  (\<^verbatim>\<open>MissingSectionHeaderError\<close> or the sections) and what
  \<^verbatim>\<open>git_submodule_status(root_dir)\<close> returned or raised.
\<close>

definition read_gitmodules_file ::
  "string \<Rightarrow> string \<Rightarrow> bool \<Rightarrow> error + config \<Rightarrow> error + submodules \<Rightarrow> error + config" where
  "read_gitmodules_file root_dir file_name file_exists parsed status =
     (let file_path = path_join root_dir file_name in
      if \<not> file_exists then Inl (Fatal (missing_submodules_file_msg file_name file_path))
      else case parsed of
             Inl MissingSectionHeaderError \<Rightarrow> Inl (Fatal ''Unknown file format!'')
           | Inl e \<Rightarrow> Inl e
           | Inr submodules_description \<Rightarrow>
               bind status (\<lambda>submods.
               bind (convert_sections file_path submods [] submodules_description) (\<lambda>ed.
               bind (add_section ed DESCRIPTION_SECTION) (\<lambda>ed.
               Inr (cfg_set ed DESCRIPTION_SECTION VERSION_ITEM ''1.0.0'')))))"

section \<open>The externals description\<close>

text \<open>
  An \<^verbatim>\<open>ExternalsDescription\<close> is a dictionary from the name of an external to its
  entry, itself a dictionary; the entry's \<^verbatim>\<open>repo\<close> is a nested dictionary.
\<close>

type_synonym description = "(string \<times> pydict) list"

definition quoted :: "string \<Rightarrow> string" where
  "quoted s = dq @ s @ dq"

definition py_join :: "string \<Rightarrow> string list \<Rightarrow> string" where
  "py_join sep xs = (case xs of [] \<Rightarrow> [] | x # r \<Rightarrow> foldl (\<lambda>acc y. acc @ sep @ y) x r)"

text \<open>
  \<^verbatim>\<open>str(v)\<close>, as an f-string prints a value. For a dictionary this is its
  \<^verbatim>\<open>repr\<close>; the escapes \<^verbatim>\<open>repr\<close> puts into a quoted string are not modelled.
\<close>

fun py_repr :: "pyval \<Rightarrow> string" where
  "py_repr (Str s) = sq @ s @ sq"
| "py_repr (Bool b) = (if b then ''True'' else ''False'')"
| "py_repr (Dict d) =
     ''{'' @ py_join '', '' (map (\<lambda>kv. sq @ fst kv @ sq @ '': '' @ py_repr (snd kv)) d) @ ''}''"

definition py_str :: "pyval \<Rightarrow> string" where
  "py_str v = (case v of Str s \<Rightarrow> s | _ \<Rightarrow> py_repr v)"

text \<open>The truth value of a Python value in a condition.\<close>

definition py_truthy :: "pyval \<Rightarrow> bool" where
  "py_truthy v = (case v of Str s \<Rightarrow> s \<noteq> [] | Bool b \<Rightarrow> b | Dict d \<Rightarrow> d \<noteq> [])"

definition has_key :: "('k \<times> 'v) list \<Rightarrow> 'k \<Rightarrow> bool" where
  "has_key d k = (map_of d k \<noteq> None)"

text \<open>\<^verbatim>\<open>d[k]\<close> on a dictionary, and \<^verbatim>\<open>entry["repo"]\<close> read as a dictionary.\<close>

definition getitem :: "pydict \<Rightarrow> string \<Rightarrow> error + pyval" where
  "getitem d k = (case map_of d k of None \<Rightarrow> Inl (KeyError k) | Some v \<Rightarrow> Inr v)"

definition get_repo :: "pydict \<Rightarrow> error + pydict" where
  "get_repo entry =
     (case map_of entry REPO of
        None \<Rightarrow> Inl (KeyError REPO)
      | Some (Dict repo) \<Rightarrow> Inr repo
      | Some _ \<Rightarrow> Inl TypeError)"

text \<open>
  The second \<^verbatim>\<open>.format(ext_name)\<close> of the over-specified message is applied to a
  string whose only braces are those of the name of the external. On a string without
  braces \<^verbatim>\<open>str.format\<close> is the identity; its replacement fields are not modelled, and
  a string with a brace gives \<open>Unmodelled\<close>.
\<close>

definition py_format :: "string \<Rightarrow> error + string" where
  "py_format s =
     (if list_all (\<lambda>c. c \<noteq> CHR 0x7B \<and> c \<noteq> CHR 0x7D) s then Inr s
      else Inl (Unmodelled ''str.format''))"

subsection \<open>The messages of the first phase\<close>

definition unknown_protocol_msg :: "string \<Rightarrow> string \<Rightarrow> string" where
  "unknown_protocol_msg protocol ext_name =
     ''Unknown repository protocol '' @ quoted protocol @ '' in '' @ quoted ext_name @ ''.''"

definition svn_hash_msg :: "string \<Rightarrow> string" where
  "svn_hash_msg ext_name =
     ''In repo description for '' @ quoted ext_name @ ''. svn repositories '' @
     ''may not include the '' @ quoted ''hash'' @ '' keyword.''"

definition submodule_protocol_msg :: "string \<Rightarrow> string \<Rightarrow> string" where
  "submodule_protocol_msg ext_name protocol =
     ''self.SUBMODULE is only supported with '' @ PROTOCOL_GIT @ '' protocol, '' @
     quoted ext_name @ '' is defined as an '' @
     protocol @ '' repository''"

text \<open>
  The four extensions of \<^verbatim>\<open>found_refs\<close>. The one for the tag is made of two
  f-strings. In the other three the second literal has no \<^verbatim>\<open>f\<close> prefix, so its
  braces are printed as they stand and nothing is substituted: neither the value of the
  field nor the references found before.
\<close>

definition tag_ref :: "string \<Rightarrow> string \<Rightarrow> string" where
  "tag_ref v found_refs = dq @ TAG @ '' = '' @ dq @ v @ dq @ '', '' @ found_refs"

definition branch_ref :: string where
  "branch_ref =
     dq @ BRANCH @ '' = '' @
     ''{self[ext_name][self.REPO][self.BRANCH]}'' @ dq @ '', {found_refs}''"

definition hash_ref :: string where
  "hash_ref =
     dq @ HASH @ '' = '' @
     ''{self[ext_name][self.REPO][self.HASH]}'' @ dq @ '', {found_refs}''"

definition submodule_ref :: string where
  "submodule_ref =
     dq @ SUBMODULE @ '' = '' @
     ''{self[ext_name][self.SUBMODULE]}'' @ dq @ '', {found_refs}''"

definition over_specified_head :: "bool \<Rightarrow> string" where
  "over_specified_head has_submodule =
     ''Model description is over specified! '' @
     (if has_submodule
      then ''from_submodule is not compatible with '' @
           quoted ''tag'' @ '', '' @ quoted ''branch'' @ '', or '' @ quoted ''hash'' @ '' ''
      else '' Only one of '' @ quoted ''tag'' @ '', '' @ quoted ''branch'' @ '', or '' @
           quoted ''hash'' @ '' '' @
           ''may be specified '')"

definition over_specified_msg :: "bool \<Rightarrow> string \<Rightarrow> string \<Rightarrow> string" where
  "over_specified_msg has_submodule ext_name found_refs =
     over_specified_head has_submodule @
     ''for repo description of '' @ quoted ext_name @ ''.'' @
     nl @ ''Found: '' @ found_refs"

definition under_specified_msg :: "string \<Rightarrow> string" where
  "under_specified_msg ext_name =
     ''Model description is under specified! One of '' @
     quoted ''tag'' @ '', '' @ quoted ''branch'' @ '', or '' @ quoted ''hash'' @
     '' must be specified for '' @
     ''repo description of '' @ quoted ext_name"

definition no_repo_url_msg :: "string \<Rightarrow> string" where
  "no_repo_url_msg ext_name =
     ''Model description is under specified! Must have '' @
     quoted ''repo_url'' @ '' in repo '' @
     ''description for '' @ quoted ext_name"

definition submodule_url_msg :: "string \<Rightarrow> string" where
  "submodule_url_msg ext_name =
     ''Model description is over specified! '' @
     ''from_submodule keyword is not compatible '' @
     ''with '' @ REPO_URL @ '' keyword for'' @
     '' repo description of '' @ quoted ext_name"

definition submodule_path_msg :: "string \<Rightarrow> string" where
  "submodule_path_msg ext_name =
     ''Model description is over specified! '' @
     ''from_submodule keyword is not compatible with '' @
     PATH @ '' keyword for'' @
     '' repo description of '' @ quoted ext_name"

subsection \<open>The first phase: the data the user supplied\<close>

text \<open>
  The reference count of an entry and the text of \<^verbatim>\<open>found_refs\<close>, as the four
  \<^verbatim>\<open>if\<close> statements of \<^verbatim>\<open>_check_data\<close> build them, in their order.
\<close>

definition submodule_true :: "pydict \<Rightarrow> bool" where
  "submodule_true entry = (case map_of entry SUBMODULE of None \<Rightarrow> False | Some v \<Rightarrow> py_truthy v)"

definition count_tag :: "pydict \<Rightarrow> nat \<times> string \<Rightarrow> nat \<times> string" where
  "count_tag repo acc =
     (case map_of repo TAG of
        Some v \<Rightarrow> (fst acc + 1, tag_ref (py_str v) (snd acc))
      | None \<Rightarrow> acc)"

definition count_branch :: "pydict \<Rightarrow> nat \<times> string \<Rightarrow> nat \<times> string" where
  "count_branch repo acc = (if has_key repo BRANCH then (fst acc + 1, branch_ref) else acc)"

definition count_hash :: "pydict \<Rightarrow> nat \<times> string \<Rightarrow> nat \<times> string" where
  "count_hash repo acc = (if has_key repo HASH then (fst acc + 1, hash_ref) else acc)"

definition count_submodule :: "pydict \<Rightarrow> nat \<times> string \<Rightarrow> nat \<times> string" where
  "count_submodule entry acc = (if submodule_true entry then (fst acc + 1, submodule_ref) else acc)"

definition count_refs :: "pydict \<Rightarrow> pydict \<Rightarrow> nat \<times> string" where
  "count_refs entry repo =
     count_submodule entry (count_hash repo (count_branch repo (count_tag repo (0, []))))"

text \<open>
  Modelled from the spec: \<^verbatim>\<open>expand_local_url\<close> of the absent module \<^verbatim>\<open>utils\<close> maps
  a url and the name of the external to a url. It is a parameter, and it may fail. It
  is given a string; on any other value it raises \<^verbatim>\<open>TypeError\<close>.
\<close>

type_synonym url_expander = "string \<Rightarrow> string \<Rightarrow> error + string"

definition expand_url :: "url_expander \<Rightarrow> pyval \<Rightarrow> string \<Rightarrow> error + pyval" where
  "expand_url expand_local_url v ext_name =
     (case v of
        Str u \<Rightarrow> bind (expand_local_url u ext_name) (\<lambda>url. Inr (Str url))
      | _ \<Rightarrow> Inl TypeError)"

text \<open>
  The body of the loop of \<^verbatim>\<open>_check_data\<close> for one entry, returned as the loop leaves
  it: \<open>check_refs\<close> is the block under \<^verbatim>\<open>protocol != externals_only\<close>.
\<close>

definition check_ref_count :: "string \<Rightarrow> pydict \<Rightarrow> pydict \<Rightarrow> error + unit" where
  "check_ref_count ext_name entry repo =
     (case count_refs entry repo of (ref_count, found_refs) \<Rightarrow>
        if ref_count > 1
        then bind (py_format (''for repo description of '' @ quoted ext_name @ ''.'')) (\<lambda>part.
               Inl (Fatal (over_specified_head (has_key entry SUBMODULE) @ part @
                           nl @ ''Found: '' @ found_refs)))
        else if ref_count < 1 then Inl (Fatal (under_specified_msg ext_name))
        else Inr ())"

definition check_refs :: "url_expander \<Rightarrow> string \<Rightarrow> pydict \<Rightarrow> pydict \<Rightarrow> error + pydict" where
  "check_refs expand_local_url ext_name entry repo =
     bind (check_ref_count ext_name entry repo) (\<lambda>_.
       if \<not> has_key repo REPO_URL \<and> \<not> submodule_true entry
       then Inl (Fatal (no_repo_url_msg ext_name))
       else if submodule_true entry \<and> has_key repo REPO_URL
       then Inl (Fatal (submodule_url_msg ext_name))
       else if submodule_true entry \<and> has_key entry PATH
       then Inl (Fatal (submodule_path_msg ext_name))
       else (case map_of repo REPO_URL of
               Some v \<Rightarrow>
                 bind (expand_url expand_local_url v ext_name) (\<lambda>url.
                   Inr (AList.update REPO (Dict (AList.update REPO_URL url repo)) entry))
             | None \<Rightarrow> Inr entry))"

definition check_data_entry :: "url_expander \<Rightarrow> string \<Rightarrow> pydict \<Rightarrow> error + pydict" where
  "check_data_entry expand_local_url ext_name entry =
     bind (get_repo entry) (\<lambda>repo.
     bind (getitem repo PROTOCOL) (\<lambda>protocol.
       if protocol \<notin> set (map Str KNOWN_PRROTOCOLS)
       then Inl (Fatal (unknown_protocol_msg (py_str protocol) ext_name))
       else if protocol = Str PROTOCOL_SVN \<and> has_key repo HASH
       then Inl (Fatal (svn_hash_msg ext_name))
       else if protocol \<noteq> Str PROTOCOL_GIT \<and> has_key entry SUBMODULE
       then Inl (Fatal (submodule_protocol_msg ext_name (py_str protocol)))
       else if protocol \<noteq> Str PROTOCOL_EXTERNALS_ONLY
       then check_refs expand_local_url ext_name entry repo
       else Inr entry))"

text \<open>\<^verbatim>\<open>_check_data\<close>: the entries in the order of the dictionary, until one fails.\<close>

fun check_data :: "url_expander \<Rightarrow> description \<Rightarrow> error + description" where
  "check_data expand_local_url [] = Inr []"
| "check_data expand_local_url ((ext_name, entry) # rest) =
     bind (check_data_entry expand_local_url ext_name entry) (\<lambda>entry'.
     bind (check_data expand_local_url rest) (\<lambda>rest'.
       Inr ((ext_name, entry') # rest')))"

subsection \<open>The third phase: the shape of an entry\<close>

text \<open>
  \<^verbatim>\<open>_source_schema\<close>: the required keys, each with a value of the required type.
\<close>

definition source_schema_repo :: pydict where
  "source_schema_repo =
     [(PROTOCOL, Str ''string''), (REPO_URL, Str ''string''), (TAG, Str ''string''),
      (BRANCH, Str ''string''), (HASH, Str ''string''), (SPARSE, Str ''string'')]"

definition source_schema :: pydict where
  "source_schema =
     [(REQUIRED, Bool True), (PATH, Str ''string''), (EXTERNALS, Str ''string''),
      (SUBMODULE, Bool True), (REPO, Dict source_schema_repo)]"

text \<open>\<^verbatim>\<open>isinstance(data, type(schema))\<close> on the three kinds of value.\<close>

fun same_type :: "pyval \<Rightarrow> pyval \<Rightarrow> bool" where
  "same_type (Str _) (Str _) = True"
| "same_type (Bool _) (Bool _) = True"
| "same_type (Dict _) (Dict _) = True"
| "same_type _ _ = False"

text \<open>\<^verbatim>\<open>a in s\<close> on two strings: \<open>a\<close> occurs in \<open>s\<close>.\<close>

fun is_substring :: "string \<Rightarrow> string \<Rightarrow> bool" where
  "is_substring a [] = (a = [])"
| "is_substring a (c # s) = (take (length a) (c # s) = a \<or> is_substring a s)"

text \<open>
  \<^verbatim>\<open>print_compare_difference\<close> only prints, but its subscripts and its
  \<^verbatim>\<open>in\<close> tests raise \<^verbatim>\<open>TypeError\<close> when one side is not a dictionary: what is
  modelled is whether it returns. \<open>compare_item\<close> is one turn of its loop over a
  dictionary \<open>data_a\<close>, \<open>compare_difference\<close> the whole call.
\<close>

definition compare_item :: "pyval \<Rightarrow> string \<Rightarrow> error + unit" where
  "compare_item data_b item =
     (case data_b of
        Dict _ \<Rightarrow> Inr ()
      | Str s \<Rightarrow> if is_substring item s then Inl TypeError else Inr ()
      | Bool _ \<Rightarrow> Inl TypeError)"

fun compare_items :: "pyval \<Rightarrow> string list \<Rightarrow> error + unit" where
  "compare_items data_b [] = Inr ()"
| "compare_items data_b (item # items) =
     bind (compare_item data_b item) (\<lambda>_. compare_items data_b items)"

definition compare_difference :: "pyval \<Rightarrow> pyval \<Rightarrow> error + unit" where
  "compare_difference data_a data_b =
     (case data_a of
        Dict a \<Rightarrow> compare_items data_b (map fst a)
      | Str s \<Rightarrow> if s = [] then Inr () else Inl TypeError
      | Bool _ \<Rightarrow> Inl TypeError)"

text \<open>
  \<^verbatim>\<open>validate_data_struct\<close>. \<open>validate_keys\<close> is its loop over the keys of the
  schema, carrying \<^verbatim>\<open>in_ref\<close> and \<^verbatim>\<open>valid\<close>; the data need only hold the keys of the
  schema, what else it holds is not looked at.
\<close>

fun validate_data_struct :: "pyval \<Rightarrow> pyval \<Rightarrow> error + bool"
  and validate_keys :: "(string \<times> pyval) list \<Rightarrow> pydict \<Rightarrow> bool \<Rightarrow> bool \<Rightarrow> error + bool \<times> bool" where
  "validate_data_struct (Dict schema) data =
     bind (case data of
             Dict d \<Rightarrow> bind (validate_keys schema d True True) (\<lambda>r. Inr (fst r \<and> snd r))
           | _ \<Rightarrow> Inr False) (\<lambda>is_valid.
       if \<not> is_valid
       then bind (compare_difference (Dict schema) data) (\<lambda>_.
            bind (compare_difference data (Dict schema)) (\<lambda>_. Inr False))
       else Inr True)"
| "validate_data_struct (Str s) data = Inr (same_type data (Str s))"
| "validate_data_struct (Bool b) data = Inr (same_type data (Bool b))"
| "validate_keys [] d in_ref valid = Inr (in_ref, valid)"
| "validate_keys (kv # schema) d in_ref valid =
     (case (if in_ref then map_of d (fst kv) else None) of
        None \<Rightarrow> validate_keys schema d False valid
      | Some v \<Rightarrow>
          if valid
          then bind (validate_data_struct (snd kv) v) (\<lambda>ok. validate_keys schema d True ok)
          else validate_keys schema d True False)"

definition not_validated_msg :: "string \<Rightarrow> string" where
  "not_validated_msg field = ''ERROR: source for '' @ quoted field @ '' did not validate''"

text \<open>\<^verbatim>\<open>_validate\<close>: every entry against the schema, in order.\<close>

fun validate :: "description \<Rightarrow> error + unit" where
  "validate [] = Inr ()"
| "validate ((field, entry) # rest) =
     bind (validate_data_struct (Dict source_schema) (Dict entry)) (\<lambda>valid.
       if \<not> valid then Inl (Fatal (not_validated_msg field)) else validate rest)"

subsection \<open>The second phase: the optional fields\<close>

text \<open>
  Modelled from the spec: \<^verbatim>\<open>EMPTY_STR\<close> of the absent module
  \<^verbatim>\<open>global_constants\<close>, the empty-string default.
\<close>

definition EMPTY_STR :: pyval where
  "EMPTY_STR = Str []"

text \<open>
  The parent repository, an object of a class outside the module: what its methods
  \<^verbatim>\<open>protocol()\<close>, \<^verbatim>\<open>name()\<close> and \<^verbatim>\<open>submodules_file()\<close> return. With it comes
  \<open>create\<close>, the call \<^verbatim>\<open>create_externals_description(submod_file)\<close> that
  \<^verbatim>\<open>_repo_config_from_submodule\<close> makes with the default arguments. The description
  created there has no parent, so nothing is created from inside it.
\<close>

record parent_repo =
  pr_protocol :: string
  pr_name :: string
  pr_submodules_file :: "string option"

type_synonym parent = "(parent_repo \<times> (config \<Rightarrow> error + description)) option"

text \<open>
  What \<^verbatim>\<open>_repo_config_from_submodule\<close> finds outside when it reads the manifest of
  the parent: the working directory, whether the file exists, what the parser made of
  it, and what the status query returned.
\<close>

record environment =
  env_cwd :: string
  env_file_exists :: bool
  env_parsed :: "error + config"
  env_status :: "error + submodules"

definition no_parent_msg :: "string \<Rightarrow> string" where
  "no_parent_msg field = ''No parent submodule for '' @ quoted field"

definition parent_protocol_msg :: "string \<Rightarrow> string" where
  "parent_protocol_msg protocol =
     ''Parent protocol, '' @ quoted protocol @
     '', does not support submodules''"

definition not_in_gitmodules_msg :: "string \<Rightarrow> string" where
  "not_in_gitmodules_msg field =
     ''Cannot checkout '' @ quoted field @ '' as a submodule, '' @
     ''repo not found in '' @ GIT_SUBMODULES_FILENAME @ '' file''"

definition no_submodules_msg :: "string \<Rightarrow> string \<Rightarrow> string" where
  "no_submodules_msg field name =
     ''Cannot checkout '' @ quoted field @ '' from submodule information'' @ nl @
     ''       Parent repo, '' @ quoted name @ '' does not have submodules''"

text \<open>
  The first half of \<^verbatim>\<open>_repo_config_from_submodule\<close>: the description of the
  parent's manifest. Python keeps it in \<^verbatim>\<open>submod_desc\<close> after the first entry that
  needs it; the value is the same for every entry, and a failure ends the whole phase
  at that first entry.
\<close>

definition load_submod_desc ::
  "(config \<Rightarrow> error + description) \<Rightarrow> environment \<Rightarrow> parent_repo \<Rightarrow> string
     \<Rightarrow> error + description" where
  "load_submod_desc create env p field =
     (let repo_path = env_cwd env in
      case pr_submodules_file p of
        None \<Rightarrow> Inl (Fatal (no_submodules_msg field (pr_name p)))
      | Some submod_file \<Rightarrow>
          bind (read_gitmodules_file repo_path submod_file (env_file_exists env)
                  (env_parsed env) (env_status env)) create)"

definition repo_config_from_submodule ::
  "(config \<Rightarrow> error + description) \<Rightarrow> environment \<Rightarrow> parent_repo \<Rightarrow> string
     \<Rightarrow> error + (pyval option \<times> pyval option \<times> pyval option)" where
  "repo_config_from_submodule create env p field =
     bind (load_submod_desc create env p field) (\<lambda>submod_desc.
       case map_of submod_desc field of
         None \<Rightarrow> Inr (None, None, None)
       | Some ext \<Rightarrow>
           bind (get_repo ext) (\<lambda>ext_repo.
           bind (getitem ext_repo REPO_URL) (\<lambda>repo_url.
           bind (getitem ext PATH) (\<lambda>repo_path.
           bind (getitem ext_repo HASH) (\<lambda>ref_hash.
             Inr (Some repo_url, Some repo_path, Some ref_hash))))))"

text \<open>
  \<^verbatim>\<open>if key not in d: d[key] = value\<close>. On the entry \<open>d\<close> is a dictionary. The
  entry's \<^verbatim>\<open>repo\<close> is whatever value the entry holds: on a string \<^verbatim>\<open>in\<close> is the
  substring test and the assignment raises, on a boolean \<^verbatim>\<open>in\<close> raises.
\<close>

definition set_default :: "string \<Rightarrow> pyval \<Rightarrow> pydict \<Rightarrow> pydict" where
  "set_default k v d = (if has_key d k then d else AList.update k v d)"

definition set_default_in :: "string \<Rightarrow> pyval \<Rightarrow> pyval \<Rightarrow> error + pyval" where
  "set_default_in k v repo =
     (case repo of
        Dict d \<Rightarrow> Inr (Dict (set_default k v d))
      | Str s \<Rightarrow> if is_substring k s then Inr (Str s) else Inl TypeError
      | Bool _ \<Rightarrow> Inl TypeError)"

definition fill_repo :: "pyval \<Rightarrow> error + pyval" where
  "fill_repo repo =
     bind (set_default_in TAG EMPTY_STR repo) (\<lambda>repo.
     bind (set_default_in BRANCH EMPTY_STR repo) (\<lambda>repo.
     bind (set_default_in HASH EMPTY_STR repo) (\<lambda>repo.
     bind (set_default_in REPO_URL EMPTY_STR repo) (\<lambda>repo.
     set_default_in SPARSE EMPTY_STR repo))))"

text \<open>\<^verbatim>\<open>repo[key] = value\<close> on the entry's \<^verbatim>\<open>repo\<close>.\<close>

definition setitem_in :: "string \<Rightarrow> pyval \<Rightarrow> pyval \<Rightarrow> error + pyval" where
  "setitem_in k v repo =
     (case repo of
        Dict d \<Rightarrow> Inr (Dict (AList.update k v d))
      | _ \<Rightarrow> Inl TypeError)"

text \<open>The body of the loop of \<^verbatim>\<open>_check_optional\<close> for one entry.\<close>

definition check_optional_entry :: "parent \<Rightarrow> environment \<Rightarrow> string \<Rightarrow> pydict \<Rightarrow> error + pydict" where
  "check_optional_entry parent env field entry =
     (let entry = set_default EXTERNALS EMPTY_STR entry in
      bind (getitem entry REPO) (\<lambda>repo.
      bind (fill_repo repo) (\<lambda>repo.
        let entry = AList.update REPO repo entry
        in if has_key entry SUBMODULE
           then (case parent of
                   None \<Rightarrow> Inl (Fatal (no_parent_msg field))
                 | Some (p, create) \<Rightarrow>
                     if pr_protocol p \<noteq> PROTOCOL_GIT
                     then Inl (Fatal (parent_protocol_msg (pr_protocol p)))
                     else bind (repo_config_from_submodule create env p field) (\<lambda>args.
                            case args of
                              (Some repo_url, Some repo_path, Some ref_hash) \<Rightarrow>
                                bind (setitem_in REPO_URL repo_url repo) (\<lambda>repo.
                                bind (setitem_in HASH ref_hash repo) (\<lambda>repo.
                                  Inr (AList.update PATH repo_path
                                        (AList.update REPO repo entry))))
                            | _ \<Rightarrow> Inl (Fatal (not_in_gitmodules_msg field))))
           else Inr (AList.update SUBMODULE (Bool False) entry))))"

fun check_optional :: "parent \<Rightarrow> environment \<Rightarrow> description \<Rightarrow> error + description" where
  "check_optional parent env [] = Inr []"
| "check_optional parent env ((field, entry) # rest) =
     bind (check_optional_entry parent env field entry) (\<lambda>entry'.
     bind (check_optional parent env rest) (\<lambda>rest'.
       Inr ((field, entry') # rest')))"

text \<open>\<^verbatim>\<open>_check_user_input\<close>: the three phases in their order.\<close>

definition check_user_input ::
  "url_expander \<Rightarrow> parent \<Rightarrow> environment \<Rightarrow> description \<Rightarrow> error + description" where
  "check_user_input expand_local_url parent env desc =
     bind (check_data expand_local_url desc) (\<lambda>desc1.
     bind (check_optional parent env desc1) (\<lambda>desc2.
     bind (validate desc2) (\<lambda>_. Inr desc2)))"

subsection \<open>Building the description from a document\<close>

text \<open>
  Modelled from the spec: \<^verbatim>\<open>str_to_bool\<close> of the absent module \<^verbatim>\<open>utils\<close>, the
  boolean coercion that accepts \<^verbatim>\<open>true/false\<close>, \<^verbatim>\<open>yes/no\<close> and \<^verbatim>\<open>1/0\<close> in any
  case and rejects anything else with a \<^verbatim>\<open>BooleanFormatError\<close>.
\<close>

definition str_to_bool :: "string \<Rightarrow> error + bool" where
  "str_to_bool bool_str =
     (let str_lower = py_lower bool_str in
      if str_lower \<in> set [''true'', ''yes'', ''1''] then Inr True
      else if str_lower \<in> set [''false'', ''no'', ''0''] then Inr False
      else Inl (BooleanFormatError bool_str))"

definition unknown_item_msg :: "string \<Rightarrow> string \<Rightarrow> string" where
  "unknown_item_msg name item =
     ''Invalid input: '' @ quoted name @ '' contains unknown '' @ ''item '' @ quoted item @ ''.''"

definition unsupported_schema_msg :: "int \<Rightarrow> string" where
  "unsupported_schema_msg major =
     ''Externals description file has unsupported schema '' @
     ''version '' @ quoted (str_int major) @ ''.''"

text \<open>\<^verbatim>\<open>list_to_dict\<close>: keys stripped and lower-cased, values stripped, a later pair wins.\<close>

definition list_to_dict :: "(string \<times> string) list \<Rightarrow> pydict" where
  "list_to_dict input_list =
     foldl (\<lambda>output_dict item.
              AList.update (py_lower (py_strip (fst item))) (Str (py_strip (snd item))) output_dict)
       [] input_list"

text \<open>
  One turn of the loop of \<^verbatim>\<open>_parse_cfg\<close> over the keys of a section: a key of the
  schema stays (coerced when the schema has a boolean there), a key of the schema's
  \<^verbatim>\<open>repo\<close> moves into the entry's \<^verbatim>\<open>repo\<close>, any other key is fatal.
\<close>

definition sort_item :: "string \<Rightarrow> pydict \<Rightarrow> string \<Rightarrow> error + pydict" where
  "sort_item name entry item =
     (case map_of source_schema item of
        Some (Bool _) \<Rightarrow>
          bind (getitem entry item) (\<lambda>v.
            case v of
              Str s \<Rightarrow> bind (str_to_bool s) (\<lambda>b. Inr (AList.update item (Bool b) entry))
            | _ \<Rightarrow> Inl TypeError)
      | Some _ \<Rightarrow> Inr entry
      | None \<Rightarrow>
          if has_key source_schema_repo item
          then bind (getitem entry item) (\<lambda>v.
               bind (get_repo entry) (\<lambda>repo.
                 Inr (AList.delete item
                       (AList.update REPO (Dict (AList.update item v repo)) entry))))
          else Inl (Fatal (unknown_item_msg name item)))"

fun sort_items :: "string \<Rightarrow> pydict \<Rightarrow> string list \<Rightarrow> error + pydict" where
  "sort_items name entry [] = Inr entry"
| "sort_items name entry (item # loop_keys) =
     bind (sort_item name entry item) (\<lambda>entry'. sort_items name entry' loop_keys)"

definition parse_section :: "string \<Rightarrow> (string \<times> string) list \<Rightarrow> error + pydict" where
  "parse_section name section_items =
     (let entry = AList.update REPO (Dict []) (list_to_dict section_items)
      in sort_items name entry (map fst entry))"

text \<open>
  \<^verbatim>\<open>_parse_cfg\<close>. The two filters are lists; the empty list stands for \<^verbatim>\<open>None\<close>
  as well, both being false in a condition.
\<close>

fun parse_cfg ::
  "config \<Rightarrow> string list \<Rightarrow> string list \<Rightarrow> description \<Rightarrow> error + description" where
  "parse_cfg [] components exclude self = Inr self"
| "parse_cfg (sec # cfg_data) components exclude self =
     (let name = py_strip (fst sec) in
      if (components \<noteq> [] \<and> name \<notin> set components) \<or> (exclude \<noteq> [] \<and> name \<in> set exclude)
      then parse_cfg cfg_data components exclude self
      else bind (parse_section name (snd sec)) (\<lambda>entry.
             parse_cfg cfg_data components exclude (AList.update name entry self)))"

definition remove_metadata :: "config \<Rightarrow> config" where
  "remove_metadata model_data = AList.delete DESCRIPTION_SECTION model_data"

text \<open>\<^verbatim>\<open>ExternalsDescriptionConfigV1.__init__\<close>.\<close>

definition ExternalsDescriptionConfigV1 ::
  "url_expander \<Rightarrow> environment \<Rightarrow> config \<Rightarrow> string list \<Rightarrow> string list \<Rightarrow> parent
     \<Rightarrow> error + description" where
  "ExternalsDescriptionConfigV1 expand_local_url env model_data components exclude parent =
     bind (get_cfg_schema_version model_data) (\<lambda>input.
     bind (verify_schema_version V1_SCHEMA input) (\<lambda>_.
     bind (parse_cfg (remove_metadata model_data) components exclude []) (\<lambda>self.
     check_user_input expand_local_url parent env self)))"

text \<open>
  \<^verbatim>\<open>create_externals_description\<close> for the format \<^verbatim>\<open>cfg\<close>. \<open>create_cfg\<close> takes
  the parent together with the creation of the parent's manifest description;
  \<open>create_from_manifest\<close> is that creation, the call with the default arguments and so
  without a parent; \<open>create_externals_description\<close> puts the two together.
\<close>

definition create_cfg ::
  "url_expander \<Rightarrow> environment \<Rightarrow> config \<Rightarrow> string list \<Rightarrow> string list \<Rightarrow> parent
     \<Rightarrow> error + description" where
  "create_cfg expand_local_url env model_data components exclude parent =
     bind (get_cfg_schema_version model_data) (\<lambda>version.
       case version of (major, _, _) \<Rightarrow>
         if major = 1
         then ExternalsDescriptionConfigV1 expand_local_url env model_data components exclude parent
         else Inl (Fatal (unsupported_schema_msg major)))"

definition create_from_manifest :: "url_expander \<Rightarrow> environment \<Rightarrow> config \<Rightarrow> error + description" where
  "create_from_manifest expand_local_url env submod_file =
     create_cfg expand_local_url env submod_file [] [] None"

definition with_manifest :: "url_expander \<Rightarrow> environment \<Rightarrow> parent_repo option \<Rightarrow> parent" where
  "with_manifest expand_local_url env parent_repo =
     map_option (\<lambda>p. (p, create_from_manifest expand_local_url env)) parent_repo"

definition create_externals_description ::
  "url_expander \<Rightarrow> environment \<Rightarrow> config \<Rightarrow> string list \<Rightarrow> string list \<Rightarrow> parent_repo option
     \<Rightarrow> error + description" where
  "create_externals_description expand_local_url env model_data components exclude parent_repo =
     create_cfg expand_local_url env model_data components exclude
       (with_manifest expand_local_url env parent_repo)"

text \<open>
  \<^verbatim>\<open>ExternalsDescriptionDict.__init__\<close>, the format \<^verbatim>\<open>dict\<close>: the entry map is taken
  as it is given, filtered, and checked without a parent.
\<close>

definition ExternalsDescriptionDict ::
  "url_expander \<Rightarrow> environment \<Rightarrow> description \<Rightarrow> string list \<Rightarrow> string list \<Rightarrow> error + description" where
  "ExternalsDescriptionDict expand_local_url env model_data components exclude =
     bind (verify_schema_version (1, 0, 0) (1, 0, 0)) (\<lambda>_.
       let model_data = (if components \<noteq> [] then filter (\<lambda>kv. fst kv \<in> set components) model_data
                         else model_data);
           model_data = (if exclude \<noteq> [] then filter (\<lambda>kv. fst kv \<notin> set exclude) model_data
                         else model_data)
       in check_user_input expand_local_url None env model_data)"

subsection \<open>The shape the schema asks for, in the words of the specification\<close>

text \<open>
  The required-field tree: the entry holds \<^verbatim>\<open>required\<close> and \<^verbatim>\<open>from_submodule\<close>
  as booleans, \<^verbatim>\<open>local_path\<close> and \<^verbatim>\<open>externals\<close> as strings, and \<^verbatim>\<open>repo\<close> as a
  dictionary that holds \<^verbatim>\<open>protocol\<close>, \<^verbatim>\<open>repo_url\<close>, \<^verbatim>\<open>tag\<close>, \<^verbatim>\<open>branch\<close>,
  \<^verbatim>\<open>hash\<close> and \<^verbatim>\<open>sparse\<close> as strings. \<open>conforms\<close> says the same of any schema.
\<close>

definition has_str :: "pydict \<Rightarrow> string \<Rightarrow> bool" where
  "has_str d k = (case map_of d k of Some (Str _) \<Rightarrow> True | _ \<Rightarrow> False)"

definition has_bool :: "pydict \<Rightarrow> string \<Rightarrow> bool" where
  "has_bool d k = (case map_of d k of Some (Bool _) \<Rightarrow> True | _ \<Rightarrow> False)"

definition required_shape :: "pydict \<Rightarrow> bool" where
  "required_shape entry =
     (has_bool entry REQUIRED \<and> has_str entry PATH \<and> has_str entry EXTERNALS \<and>
      has_bool entry SUBMODULE \<and>
      (case map_of entry REPO of
         Some (Dict repo) \<Rightarrow>
           has_str repo PROTOCOL \<and> has_str repo REPO_URL \<and> has_str repo TAG \<and>
           has_str repo BRANCH \<and> has_str repo HASH \<and> has_str repo SPARSE
       | _ \<Rightarrow> False))"

fun conforms :: "pyval \<Rightarrow> pyval \<Rightarrow> bool" where
  "conforms (Dict schema) data =
     (case data of
        Dict d \<Rightarrow>
          list_all (\<lambda>kv. case map_of d (fst kv) of None \<Rightarrow> False | Some v \<Rightarrow> conforms (snd kv) v) schema
      | _ \<Rightarrow> False)"
| "conforms (Str s) data = same_type data (Str s)"
| "conforms (Bool b) data = same_type data (Bool b)"

subsection \<open>The exclusivity rule, in the words of the specification\<close>

text \<open>
  How many of \<^emph>\<open>tag present\<close>, \<^emph>\<open>branch present\<close>, \<^emph>\<open>hash present\<close> and
  \<^emph>\<open>from_submodule true\<close> hold of an entry; and the rule that an entry whose protocol
  is not \<^verbatim>\<open>externals_only\<close> has exactly one of them, with a \<^verbatim>\<open>repo_url\<close> unless
  \<^verbatim>\<open>from_submodule\<close> is true.
\<close>

definition ref_count :: "pydict \<Rightarrow> pydict \<Rightarrow> nat" where
  "ref_count entry repo =
     length (filter id [has_key repo TAG, has_key repo BRANCH, has_key repo HASH, submodule_true entry])"




section \<open>Concrete inputs\<close>

text \<open>
  A manifest with the one section \<^verbatim>\<open>[submodule "lib"]\<close>, the status mapping
  \<^verbatim>\<open>{"lib": {"hash": "abc123", "status": " ", "tag": None}}\<close>, and processes to
  run the status query in: one whose \<^verbatim>\<open>git\<close> prints the line for \<^verbatim>\<open>lib\<close>, one
  whose \<^verbatim>\<open>git\<close> fails.
\<close>

definition lib_manifest :: config where
  "lib_manifest =
     [(''submodule '' @ dq @ ''lib'' @ dq, [(''path'', ''src/lib''), (''url'', ''https://x/lib.git'')])]"

definition lib_manifest_update :: config where
  "lib_manifest_update =
     [(''submodule '' @ dq @ ''lib'' @ dq,
       [(''path'', ''src/lib''), (''update'', ''rebase''), (''url'', ''https://x/lib.git''),
        (''branch'', ''main'')])]"

definition lib_status :: submodules where
  "lib_status = [(''lib'', \<lparr>sm_hash = ''abc123'', sm_status = CHR '' '', sm_tag = None\<rparr>)]"


definition lib_document :: config where
  "lib_document =
     [(''lib'', [(''local_path'', ''src/lib''), (''protocol'', ''git''),
                 (''repo_url'', ''https://x/lib.git''), (''required'', ''True''),
                 (''hash'', ''abc123'')]),
      (''externals_description'', [(''schema_version'', ''1.0.0'')])]"

definition two_dirs :: "string \<Rightarrow> bool" where
  "two_dirs path = (path = ''/home'' \<or> path = ''/repo'')"

definition git_prints_lib :: "string list \<Rightarrow> string \<Rightarrow> error + string" where
  "git_prints_lib cmd dir =
     (if cmd = [''git'', ''submodule'', ''status''] \<and> dir = ''/repo''
      then Inr ('' abc123 lib'' @ nl)
      else Inl (Fatal ''not a git repository''))"

definition git_fails :: "string list \<Rightarrow> string \<Rightarrow> error + string" where
  "git_fails cmd dir = Inl (Fatal ''git submodule status failed'')"

definition keep_url :: url_expander where
  "keep_url url ext_name = Inr url"

text \<open>
  Entries: one with every key of the schema, the same with one more key, one that
  declares both a tag and a branch, one on svn with a hash, one that declares
  \<^verbatim>\<open>from_submodule\<close> false beside a tag and a url.
\<close>

definition full_entry :: pydict where
  "full_entry =
     [(''required'', Bool True), (''local_path'', Str ''src/lib''), (''externals'', Str []),
      (''from_submodule'', Bool False),
      (''repo'', Dict [(''protocol'', Str ''git''), (''repo_url'', Str ''https://x/lib.git''),
                       (''tag'', Str ''v1''), (''branch'', Str []), (''hash'', Str []),
                       (''sparse'', Str [])])]"

definition extra_key_entry :: pydict where
  "extra_key_entry = full_entry @ [(''comment'', Str ''not a key of the schema'')]"

definition tag_branch_entry :: pydict where
  "tag_branch_entry =
     [(''required'', Bool True), (''local_path'', Str ''src/lib''),
      (''repo'', Dict [(''protocol'', Str ''git''), (''repo_url'', Str ''https://x/lib.git''),
                       (''tag'', Str ''v1''), (''branch'', Str ''main'')])]"


definition tag_entry :: pydict where
  "tag_entry =
     [(''required'', Bool True), (''local_path'', Str ''vendor/lib''),
      (''repo'', Dict [(''protocol'', Str ''git''), (''repo_url'', Str ''https://mine/lib.git''),
                       (''tag'', Str ''v1'')])]"

definition submodule_false_entry :: pydict where
  "submodule_false_entry = tag_entry @ [(''from_submodule'', Bool False)]"

text \<open>
  The surroundings of a description read in \<^verbatim>\<open>/repo\<close>, whose manifest is
  \<open>lib_manifest\<close> and whose status is \<open>lib_status\<close>; a git parent and an svn parent.
\<close>

definition lib_env :: environment where
  "lib_env =
     \<lparr>env_cwd = ''/repo'', env_file_exists = True,
      env_parsed = Inr lib_manifest, env_status = Inr lib_status\<rparr>"

definition git_parent :: parent_repo where
  "git_parent = \<lparr>pr_protocol = ''git'', pr_name = ''top'', pr_submodules_file = Some ''.gitmodules''\<rparr>"




definition svn_parent :: parent_repo where
  "svn_parent = \<lparr>pr_protocol = ''svn'', pr_name = ''top'', pr_submodules_file = None\<rparr>"

section \<open>Properties\<close>

lemma bind_Inr_iff: "bind m f = Inr y \<longleftrightarrow> (\<exists>x. m = Inr x \<and> f x = Inr y)"
  by (cases m) auto

subsection \<open>The schema version gate\<close>

lemma version_text_V1: "version_text V1_SCHEMA = ''1.1.0''"
  by code_simp

text \<open>
  C2. A parser that supports schema 1.1.0 accepts every declared version with major 1
  and minor at most 1, whatever its patch (so 1.0.0, 1.1.0 and 1.1.5); a declared
  version of major 1 with a larger minor (so 1.2.0) is refused with the fatal
  incompatible-schema message; a declared version of another major is refused with the
  fatal DEV_ERROR message, the internal-consistency failure. Every declared version with
  minor above 1 is refused, and the major is compared first.
\<close>

theorem schema_gate_v1:
  "(major = 1 \<and> minor \<le> 1 \<longrightarrow>
      verify_schema_version V1_SCHEMA (major, minor, patch) = Inr ()) \<and>
   (major = 1 \<and> minor > 1 \<longrightarrow>
      verify_schema_version V1_SCHEMA (major, minor, patch) =
        Inl (Fatal (incompatible_msg ''1.1.0'' (version_text (major, minor, patch))))) \<and>
   (major \<noteq> 1 \<longrightarrow>
      verify_schema_version V1_SCHEMA (major, minor, patch) =
        Inl (Fatal (dev_error_msg ''1.1.0'' (version_text (major, minor, patch))))) \<and>
   (minor > 1 \<longrightarrow> (\<exists>msg. verify_schema_version V1_SCHEMA (major, minor, patch) = Inl (Fatal msg)))"
proof -
  have known: "version_text (1, 1, 0) = ''1.1.0''"
    using version_text_V1 by (simp add: V1_SCHEMA_def)
  show ?thesis
    by (simp add: verify_schema_version_def V1_SCHEMA_def known Let_def)
qed

theorem schema_gate_v1_witness:
  "verify_schema_version V1_SCHEMA (1, 0, 0) = Inr () \<and>
   verify_schema_version V1_SCHEMA (1, 1, 0) = Inr () \<and>
   verify_schema_version V1_SCHEMA (1, 1, 5) = Inr () \<and>
   verify_schema_version V1_SCHEMA (1, 2, 0) = Inl (Fatal (incompatible_msg ''1.1.0'' ''1.2.0'')) \<and>
   verify_schema_version V1_SCHEMA (2, 2, 0) = Inl (Fatal (dev_error_msg ''1.1.0'' ''2.2.0''))"
proof -
  have t1: "version_text (1, 2, 0) = ''1.2.0''" by code_simp
  have t2: "version_text (2, 2, 0) = ''2.2.0''" by code_simp
  show ?thesis
    using schema_gate_v1 [of 1 0 0] schema_gate_v1 [of 1 1 0] schema_gate_v1 [of 1 1 5]
      schema_gate_v1 [of 1 2 0] schema_gate_v1 [of 2 2 0] t1 t2
    by simp
qed

subsection \<open>Reading the declared version\<close>

text \<open>
  C4. The declared version is cut at the first \<^verbatim>\<open>-\<close> or \<^verbatim>\<open>+\<close> and split at the dots.
  A component that is not an integer gives the fatal message naming the string
  (\<^verbatim>\<open>abc\<close>, \<^verbatim>\<open>1.x.3\<close>). A string with fewer than three components whose
  components are integers does not: \<^verbatim>\<open>1.2\<close> ends in the IndexError of
  \<^verbatim>\<open>version[2]\<close>, which the \<^verbatim>\<open>except ValueError\<close> does not catch; and a fourth
  component is never looked at (\<^verbatim>\<open>1.2.3.4\<close> is read as 1.2.3).
\<close>

theorem version_arity_not_checked:
  "get_cfg_schema_version [(''externals_description'', [(''schema_version'', ''1.2'')])] = Inl IndexError \<and>
   get_cfg_schema_version [(''externals_description'', [(''schema_version'', ''1'')])] = Inl IndexError \<and>
   get_cfg_schema_version [(''externals_description'', [(''schema_version'', ''1.2.3.4'')])] = Inr (1, 2, 3) \<and>
   get_cfg_schema_version [(''externals_description'', [(''schema_version'', ''abc'')])] =
     Inl (Fatal (version_format_msg ''abc'')) \<and>
   get_cfg_schema_version [(''externals_description'', [(''schema_version'', ''1.x.3-rc1'')])] =
     Inl (Fatal (version_format_msg ''1.x.3''))"
  by code_simp

subsection \<open>Reading a submodules manifest\<close>

lemma desc_item_cases:
  "desc_item fp (p, u, w) it =
     (if py_strip (fst it) = ''path'' then (Some (py_strip (snd it)), u, w)
      else if py_strip (fst it) = ''url'' then (p, Some (py_strip (snd it)), w)
      else if py_strip (fst it) = ''branch'' then (p, u, w)
      else (p, u, w @ [unknown_property_msg (fst it) fp]))"
  by (simp add: desc_item_def Let_def)

lemma desc_fold:
  "foldl (desc_item fp) (p, u, w) items = (p', u', w') \<Longrightarrow>
     w' = w @ map (\<lambda>it. unknown_property_msg (fst it) fp)
                (filter (\<lambda>it. py_strip (fst it) \<notin> {''path'', ''url'', ''branch''}) items) \<and>
     foldl (desc_item fp) (p, u, w0)
       (filter (\<lambda>it. py_strip (fst it) \<in> {''path'', ''url''}) items) = (p', u', w0)"
proof (induction items arbitrary: p u w)
  case Nil
  then show ?case by simp
next
  case (Cons it items)
  obtain p1 u1 w1 where step: "desc_item fp (p, u, w) it = (p1, u1, w1)"
    by (metis prod_cases3)
  from Cons.prems step have rest: "foldl (desc_item fp) (p1, u1, w1) items = (p', u', w')"
    by simp
  note ih = Cons.IH [OF rest]
  show ?case
  proof (cases "py_strip (fst it) \<in> {''path'', ''url''}")
    case True
    with step have w1: "w1 = w" and s0: "desc_item fp (p, u, w0) it = (p1, u1, w0)"
      by (auto simp: desc_item_cases split: if_splits)
    from True ih w1 s0 show ?thesis by auto
  next
    case False
    with step have pu: "p1 = p" "u1 = u"
      and w1: "w1 = (if py_strip (fst it) = ''branch'' then w else w @ [unknown_property_msg (fst it) fp])"
      by (auto simp: desc_item_cases split: if_splits)
    from False ih pu w1 show ?thesis by auto
  qed
qed

text \<open>
  C6 (as amended). A key of a submodule section other than \<^verbatim>\<open>path\<close>, \<^verbatim>\<open>url\<close> and
  \<^verbatim>\<open>branch\<close> is not an error: the section is read as if the key were not there, and
  one warning naming the key and the file is logged for it. \<^verbatim>\<open>branch\<close> is skipped
  without a warning.
\<close>

theorem unknown_keys_only_warn:
  "parse_submodules_desc_section section_items file_path = (path, url, warnings) \<Longrightarrow>
     warnings = map (\<lambda>item. unknown_property_msg (fst item) file_path)
                  (filter (\<lambda>item. py_strip (fst item) \<notin> {''path'', ''url'', ''branch''}) section_items) \<and>
     parse_submodules_desc_section
       (filter (\<lambda>item. py_strip (fst item) \<in> {''path'', ''url''}) section_items) file_path =
       (path, url, [])"
  unfolding parse_submodules_desc_section_def using desc_fold [of file_path None None "[]"] by simp

theorem unknown_keys_only_warn_witness:
  "parse_submodules_desc_section (snd (hd lib_manifest_update)) ''/repo/.gitmodules'' =
     (Some ''src/lib'', Some ''https://x/lib.git'',
      [unknown_property_msg ''update'' ''/repo/.gitmodules'']) \<and>
   [unknown_property_msg ''update'' ''/repo/.gitmodules''] =
     map (\<lambda>item. unknown_property_msg (fst item) ''/repo/.gitmodules'')
       (filter (\<lambda>item. py_strip (fst item) \<notin> {''path'', ''url'', ''branch''})
          (snd (hd lib_manifest_update))) \<and>
   parse_submodules_desc_section
     (filter (\<lambda>item. py_strip (fst item) \<in> {''path'', ''url''}) (snd (hd lib_manifest_update)))
     ''/repo/.gitmodules'' = (Some ''src/lib'', Some ''https://x/lib.git'', [])"
proof -
  have h: "parse_submodules_desc_section (snd (hd lib_manifest_update)) ''/repo/.gitmodules'' =
     (Some ''src/lib'', Some ''https://x/lib.git'',
      [unknown_property_msg ''update'' ''/repo/.gitmodules''])"
    by code_simp
  from unknown_keys_only_warn [OF h] h show ?thesis by simp
qed

text \<open>
  C6, as the claim states it, fails: the manifest whose section \<^verbatim>\<open>lib\<close> has the
  unknown key \<^verbatim>\<open>update\<close> is converted, to the same document as without the key.
\<close>

theorem unknown_key_is_not_fatal:
  "read_gitmodules_file ''/repo'' ''.gitmodules'' True (Inr lib_manifest_update) (Inr lib_status) =
     Inr lib_document"
  by code_simp

text \<open>
  C3. The manifest with the one section \<^verbatim>\<open>submodule "lib"\<close> (path \<^verbatim>\<open>src/lib\<close>, url
  \<^verbatim>\<open>https://x/lib.git\<close>) and the status mapping with \<^verbatim>\<open>lib\<close> at hash
  \<^verbatim>\<open>abc123\<close> give the document with the section \<^verbatim>\<open>lib\<close> holding local_path,
  protocol git, repo_url, required True and the hash, followed by the version section
  declaring schema 1.0.0; and that status mapping is what the status query returns for
  the output line \<^verbatim>\<open>" abc123 lib"\<close>. The description created from the document
  has the one entry \<^verbatim>\<open>lib\<close>, with \<^verbatim>\<open>required\<close> true and the same protocol, url
  and hash.
\<close>

theorem gitmodules_lib_document:
  "read_gitmodules_file ''/repo'' ''.gitmodules'' True (Inr lib_manifest) (Inr lib_status) =
     Inr [(''lib'', [(''local_path'', ''src/lib''), (''protocol'', ''git''),
                     (''repo_url'', ''https://x/lib.git''), (''required'', ''True''),
                     (''hash'', ''abc123'')]),
          (''externals_description'', [(''schema_version'', ''1.0.0'')])] \<and>
   get_cfg_schema_version lib_document = Inr (1, 0, 0) \<and>
   snd (git_submodule_status two_dirs git_prints_lib ''/repo'' \<lparr>cwd = ''/home''\<rparr>) = Inr lib_status \<and>
   create_externals_description keep_url lib_env lib_document [] [] None =
     Inr [(''lib'',
           [(''local_path'', Str ''src/lib''), (''required'', Bool True),
            (''repo'', Dict [(''protocol'', Str ''git''), (''repo_url'', Str ''https://x/lib.git''),
                             (''hash'', Str ''abc123''), (''tag'', Str []), (''branch'', Str []),
                             (''sparse'', Str [])]),
            (''externals'', Str []), (''from_submodule'', Bool False)])]"
  by code_simp

subsection \<open>The status lookup of a submodule section\<close>















subsection \<open>The working directory of the status query\<close>

text \<open>
  What \<^verbatim>\<open>git_submodule_status\<close> leaves as the working directory, on each of its
  paths: the starting directory when it returns a mapping; the repository's directory
  when the subprocess call raises, since the second \<^verbatim>\<open>os.chdir\<close> is then never reached;
  the starting directory when the repository directory cannot be entered.
\<close>

lemma cwd_after_status_query:
  "(snd (git_submodule_status is_dir execute_subprocess repo_dir p0) = Inr submodules \<longrightarrow>
      fst (git_submodule_status is_dir execute_subprocess repo_dir p0) = p0) \<and>
   (is_dir repo_dir \<and> execute_subprocess [''git'', ''submodule'', ''status''] repo_dir = Inl e \<longrightarrow>
      git_submodule_status is_dir execute_subprocess repo_dir p0 = (p0\<lparr>cwd := repo_dir\<rparr>, Inl e)) \<and>
   (\<not> is_dir repo_dir \<longrightarrow>
      git_submodule_status is_dir execute_subprocess repo_dir p0 = (p0, Inl (OSError repo_dir)))"
  by (auto simp: git_submodule_status_def os_chdir_def Let_def split: sum.splits if_splits)

text \<open>
  C8. The status query does not restore the working directory on every exit path. Called
  for \<^verbatim>\<open>/repo\<close> from the working directory \<^verbatim>\<open>/home\<close>, it returns with the working
  directory \<^verbatim>\<open>/home\<close> when \<^verbatim>\<open>git\<close> prints its status; when \<^verbatim>\<open>git\<close> fails, the
  error leaves the function with the working directory \<^verbatim>\<open>/repo\<close>. The same happens
  when the output has a line without a second field: the \<^verbatim>\<open>IndexError\<close> of the loop
  leaves the working directory at \<^verbatim>\<open>/repo\<close>.
\<close>

theorem cwd_not_restored_on_failure:
  "git_submodule_status two_dirs git_prints_lib ''/repo'' \<lparr>cwd = ''/home''\<rparr> =
     (\<lparr>cwd = ''/home''\<rparr>, Inr lib_status) \<and>
   git_submodule_status two_dirs git_fails ''/repo'' \<lparr>cwd = ''/home''\<rparr> =
     (\<lparr>cwd = ''/repo''\<rparr>, Inl (Fatal ''git submodule status failed'')) \<and>
   cwd (fst (git_submodule_status two_dirs git_fails ''/repo'' \<lparr>cwd = ''/home''\<rparr>)) \<noteq> ''/home'' \<and>
   git_submodule_status two_dirs (\<lambda>cmd dir. Inr ''Mabc123'') ''/repo'' \<lparr>cwd = ''/home''\<rparr> =
     (\<lparr>cwd = ''/repo''\<rparr>, Inl IndexError)"
  by code_simp

subsection \<open>The shape check\<close>

lemma validate_sound_aux:
  "(\<forall>b. validate_data_struct schema data = Inr b \<longrightarrow> b = conforms schema data)"
  "(\<forall>r. validate_keys sch d in_ref valid = Inr r \<longrightarrow>
      (fst r \<and> snd r) = (in_ref \<and> valid \<and> list_all (\<lambda>kv. case map_of d (fst kv) of None \<Rightarrow> False | Some v \<Rightarrow> conforms (snd kv) v) sch))"
proof (induction schema data and sch d in_ref valid rule: validate_data_struct_validate_keys.induct)
  case (1 schema data)
  show ?case
  proof (cases data)
    case (Dict dd)
    with 1 show ?thesis
      by (fastforce simp: bind_Inr_iff split: if_splits)
  qed (auto simp: bind_Inr_iff split: if_splits)
next
  case (5 kv schema d in_ref valid)
  show ?case
  proof (cases "if in_ref then map_of d (fst kv) else None")
    case None
    with 5 show ?thesis by (auto split: if_splits)
  next
    case (Some v)
    then have in_ref: in_ref and v: "map_of d (fst kv) = Some v"
      by (auto split: if_splits)
    show ?thesis
    proof (cases valid)
      case True
      note ih1 = "5.IH"(2) [OF Some True]
      note ih2 = "5.IH"(3) [OF Some True]
      show ?thesis
      proof (intro allI impI)
        fix r
        assume r: "validate_keys (kv # schema) d in_ref valid = Inr r"
        with Some True obtain ok where ok: "validate_data_struct (snd kv) v = Inr ok"
          and rest: "validate_keys schema d True ok = Inr r"
          by (auto simp: bind_Inr_iff)
        from ih1 ok have "ok = conforms (snd kv) v" by blast
        moreover from ih2 rest have "(fst r \<and> snd r) = (True \<and> ok \<and> list_all (\<lambda>kv. case map_of d (fst kv) of None \<Rightarrow> False | Some v \<Rightarrow> conforms (snd kv) v) schema)"
          by blast
        ultimately show "(fst r \<and> snd r) = (in_ref \<and> valid \<and> list_all (\<lambda>kv. case map_of d (fst kv) of None \<Rightarrow> False | Some v \<Rightarrow> conforms (snd kv) v) (kv # schema))"
          using in_ref True v by simp
      qed
    next
      case False
      note ih = "5.IH"(4) [OF Some False]
      show ?thesis
      proof (intro allI impI)
        fix r
        assume r: "validate_keys (kv # schema) d in_ref valid = Inr r"
        with Some False have "validate_keys schema d True False = Inr r"
          by simp
        with ih have "(fst r \<and> snd r) = False" by blast
        with False show "(fst r \<and> snd r) = (in_ref \<and> valid \<and> list_all (\<lambda>kv. case map_of d (fst kv) of None \<Rightarrow> False | Some v \<Rightarrow> conforms (snd kv) v) (kv # schema))"
          by simp
      qed
    qed
  qed
qed auto

lemma validate_complete_aux:
  "(conforms schema data \<longrightarrow> validate_data_struct schema data = Inr True)"
  "(valid \<longrightarrow> in_ref \<longrightarrow> list_all (\<lambda>kv. case map_of d (fst kv) of None \<Rightarrow> False | Some v \<Rightarrow> conforms (snd kv) v) sch \<longrightarrow> validate_keys sch d in_ref valid = Inr (True, True))"
proof (induction schema data and sch d in_ref valid rule: validate_data_struct_validate_keys.induct)
  case (1 schema data)
  show ?case
  proof (cases data)
    case (Dict dd)
    with 1 show ?thesis by auto
  qed auto
next
  case (5 kv schema d in_ref valid)
  then show ?case
    by (auto split: option.splits)
qed auto

lemma validate_sound:
  "validate_data_struct schema data = Inr b \<Longrightarrow> b = conforms schema data"
  using validate_sound_aux(1) by blast

lemma validate_complete:
  "conforms schema data \<Longrightarrow> validate_data_struct schema data = Inr True"
  using validate_complete_aux(1) by blast

lemma has_str_alt: "has_str d k = (case map_of d k of None \<Rightarrow> False | Some v \<Rightarrow> same_type v (Str s))"
  by (auto simp: has_str_def split: option.splits pyval.splits)

lemma has_bool_alt: "has_bool d k = (case map_of d k of None \<Rightarrow> False | Some v \<Rightarrow> same_type v (Bool b))"
  by (auto simp: has_bool_def split: option.splits pyval.splits)

lemma conforms_repo_schema:
  "conforms (Dict source_schema_repo) v =
     (case v of Dict repo \<Rightarrow>
        has_str repo PROTOCOL \<and> has_str repo REPO_URL \<and> has_str repo TAG \<and>
        has_str repo BRANCH \<and> has_str repo HASH \<and> has_str repo SPARSE
      | _ \<Rightarrow> False)"
  by (cases v)
     (simp_all add: source_schema_repo_def has_str_alt [where s = "''string''"] cong: option.case_cong)

lemma conforms_source_schema:
  "conforms (Dict source_schema) (Dict entry) = required_shape entry"
proof -
  have "conforms (Dict source_schema) (Dict entry) =
     (has_bool entry REQUIRED \<and> has_str entry PATH \<and> has_str entry EXTERNALS \<and>
      has_bool entry SUBMODULE \<and>
      (case map_of entry REPO of None \<Rightarrow> False | Some v \<Rightarrow> conforms (Dict source_schema_repo) v))"
    by (simp add: source_schema_def has_str_alt [where s = "''string''"] has_bool_alt [where b = True]
          cong: option.case_cong)
  then show ?thesis
    by (simp add: required_shape_def conforms_repo_schema del: conforms.simps
          split: option.splits pyval.splits)
qed

lemma compare_items_dict: "compare_items (Dict b) ks = Inr ()"
  by (induction ks) (simp_all add: compare_item_def)

lemma compare_dicts: "compare_difference (Dict a) (Dict b) = Inr ()"
  by (simp add: compare_difference_def compare_items_dict)

lemma validate_keys_flat:
  "list_all (\<lambda>kv. case snd kv of Dict _ \<Rightarrow> False | _ \<Rightarrow> True) sch \<Longrightarrow>
     \<exists>r. validate_keys sch d in_ref valid = Inr r"
proof (induction sch arbitrary: in_ref valid)
  case Nil
  then show ?case by simp
next
  case (Cons kv sch)
  then show ?case
    by (cases "snd kv") (auto split: option.splits)
qed

lemma validate_flat_dict:
  "list_all (\<lambda>kv. case snd kv of Dict _ \<Rightarrow> False | _ \<Rightarrow> True) sch \<Longrightarrow>
     \<exists>b. validate_data_struct (Dict sch) (Dict d) = Inr b"
  using validate_keys_flat [of sch d True True] by (auto simp: compare_dicts)

lemma validate_repo_returns:
  "\<exists>b. validate_data_struct (Dict source_schema_repo) (Dict r) = Inr b"
  by (rule validate_flat_dict) (simp add: source_schema_repo_def)

lemma validate_entry_returns:
  assumes "\<And>v. map_of entry REPO = Some v \<Longrightarrow> \<exists>r. v = Dict r"
  shows "validate_data_struct (Dict source_schema) (Dict entry) = Inr (required_shape entry)"
proof -
  have keys: "\<exists>r. validate_keys source_schema entry True True = Inr r"
  proof (cases "map_of entry REPO")
    case None
    then show ?thesis
      by (auto simp: source_schema_def split: option.splits)
  next
    case (Some v)
    with assms obtain r where v: "v = Dict r" by blast
    from validate_repo_returns [of r] obtain b where
      b: "validate_data_struct (Dict source_schema_repo) (Dict r) = Inr b" by blast
    from Some v b show ?thesis
      by (auto simp: source_schema_def split: option.splits)
  qed
  then have "\<exists>b. validate_data_struct (Dict source_schema) (Dict entry) = Inr b"
    by (auto simp: compare_dicts)
  then obtain b where b: "validate_data_struct (Dict source_schema) (Dict entry) = Inr b" by blast
  from validate_sound [OF b] b show ?thesis
    by (simp add: conforms_source_schema del: conforms.simps validate_data_struct.simps)
qed

lemma validate_iff:
  "validate desc = Inr () \<longleftrightarrow> list_all (\<lambda>kv. required_shape (snd kv)) desc"
proof (induction desc)
  case Nil
  then show ?case by simp
next
  case (Cons fe desc)
  obtain field entry where fe: "fe = (field, entry)" by (cases fe)
  show ?case
  proof (cases "required_shape entry")
    case True
    then have "validate_data_struct (Dict source_schema) (Dict entry) = Inr True"
      using validate_complete conforms_source_schema by blast
    with True Cons fe show ?thesis by simp
  next
    case False
    have "validate (fe # desc) \<noteq> Inr ()"
    proof (cases "validate_data_struct (Dict source_schema) (Dict entry)")
      case (Inl e)
      with fe show ?thesis by simp
    next
      case (Inr b)
      from validate_sound [OF this] False have "\<not> b"
        by (simp add: conforms_source_schema del: conforms.simps)
      with Inr fe show ?thesis by simp
    qed
    with False fe show ?thesis by simp
  qed
qed

lemma validate_append:
  "validate pre = Inr () \<Longrightarrow> validate (pre @ rest) = validate rest"
proof (induction pre)
  case Nil
  then show ?case by simp
next
  case (Cons fe pre)
  obtain field entry where fe: "fe = (field, entry)" by (cases fe)
  with Cons show ?case
    by (cases "validate_data_struct (Dict source_schema) (Dict entry)") (auto split: if_splits)
qed


lemma has_append:
  "has_str d k \<Longrightarrow> has_str (d @ extra) k" "has_bool d k \<Longrightarrow> has_bool (d @ extra) k"
  by (auto simp: has_str_def has_bool_def map_add_def split: option.splits pyval.splits)

lemma required_shape_append: "required_shape entry \<Longrightarrow> required_shape (entry @ extra)"
  by (auto simp: required_shape_def has_append map_add_def split: option.splits pyval.splits)

lemma required_shape_repo_append:
  assumes "required_shape entry" and "map_of entry REPO = Some (Dict repo)"
  shows "required_shape (AList.update REPO (Dict (repo @ extra)) entry)"
proof -
  have other: "has_str (AList.update REPO v entry) k = has_str entry k"
    "has_bool (AList.update REPO v entry) k = has_bool entry k" if "k \<noteq> REPO" for k v
    using that by (simp_all add: has_str_def has_bool_def update_conv')
  have ne: "REQUIRED \<noteq> REPO" "PATH \<noteq> REPO" "EXTERNALS \<noteq> REPO" "SUBMODULE \<noteq> REPO"
    by (simp_all add: kw_defs)
  from assms show ?thesis
    by (simp add: required_shape_def other ne update_conv' has_append)
qed

text \<open>
  C5 (as amended). The shape check passes exactly when every entry holds every key of
  the required-field tree with a value of the required type, at both levels. For the
  first entry that lacks one of them or has it with another type the fatal
  \<^verbatim>\<open>did not validate\<close> error is raised (the entry's \<^verbatim>\<open>repo\<close>, if it has one,
  being a dictionary). Keys beyond the schema are not looked at: an entry that passes
  still passes with any further key, in the entry or in its \<^verbatim>\<open>repo\<close>.
\<close>

theorem validate_requires_schema_keys:
  "(validate desc = Inr () \<longleftrightarrow> list_all (\<lambda>kv. required_shape (snd kv)) desc) \<and>
   (validate pre = Inr () \<and> \<not> required_shape entry \<and>
    (\<forall>v. map_of entry REPO = Some v \<longrightarrow> (\<exists>repo. v = Dict repo)) \<longrightarrow>
      validate (pre @ (field, entry) # rest) = Inl (Fatal (not_validated_msg field))) \<and>
   (required_shape entry \<longrightarrow> required_shape (entry @ extra)) \<and>
   (required_shape entry \<and> map_of entry REPO = Some (Dict repo) \<longrightarrow>
      required_shape (AList.update REPO (Dict (repo @ extra)) entry))"
proof (intro conjI impI)
  show "validate desc = Inr () \<longleftrightarrow> list_all (\<lambda>kv. required_shape (snd kv)) desc"
    by (rule validate_iff)
next
  assume a: "validate pre = Inr () \<and> \<not> required_shape entry \<and>
    (\<forall>v. map_of entry REPO = Some v \<longrightarrow> (\<exists>repo. v = Dict repo))"
  then have "validate_data_struct (Dict source_schema) (Dict entry) = Inr (required_shape entry)"
    by (intro validate_entry_returns) blast
  with a have "validate ((field, entry) # rest) = Inl (Fatal (not_validated_msg field))"
    by simp
  with a show "validate (pre @ (field, entry) # rest) = Inl (Fatal (not_validated_msg field))"
    by (simp add: validate_append)
next
  assume "required_shape entry"
  then show "required_shape (entry @ extra)"
    by (rule required_shape_append)
next
  assume "required_shape entry \<and> map_of entry REPO = Some (Dict repo)"
  then show "required_shape (AList.update REPO (Dict (repo @ extra)) entry)"
    using required_shape_repo_append by blast
qed

theorem validate_requires_schema_keys_witness:
  "validate [(''lib'', full_entry)] = Inr () \<and>
   validate [(''lib'', full_entry), (''bad'', AList.delete ''externals'' full_entry), (''other'', [])] =
     Inl (Fatal (not_validated_msg ''bad'')) \<and>
   validate [(''lib'', AList.update ''required'' (Str ''True'') full_entry)] =
     Inl (Fatal (not_validated_msg ''lib'')) \<and>
   required_shape (full_entry @ [(''comment'', Str ''not a key of the schema'')])"
proof -
  have ok: "required_shape full_entry"
    by code_simp
  have bad: "\<not> required_shape (AList.delete ''externals'' full_entry)"
    "\<not> required_shape (AList.update ''required'' (Str ''True'') full_entry)"
    by code_simp+
  have repo: "\<forall>v. map_of (AList.delete ''externals'' full_entry) REPO = Some v \<longrightarrow> (\<exists>repo. v = Dict repo)"
    "\<forall>v. map_of (AList.update ''required'' (Str ''True'') full_entry) REPO = Some v \<longrightarrow> (\<exists>repo. v = Dict repo)"
    by (simp_all add: full_entry_def REPO_def)
  from validate_requires_schema_keys [where desc = "[(''lib'', full_entry)]"] ok
  have a: "validate [(''lib'', full_entry)] = Inr ()"
    by simp
  from validate_requires_schema_keys [where pre = "[(''lib'', full_entry)]"
      and entry = "AList.delete ''externals'' full_entry" and field = "''bad''"
      and rest = "[(''other'', [])]"] a bad(1) repo(1)
  have b: "validate [(''lib'', full_entry), (''bad'', AList.delete ''externals'' full_entry), (''other'', [])] =
     Inl (Fatal (not_validated_msg ''bad''))"
    by simp
  from validate_requires_schema_keys [where pre = "[]"
      and entry = "AList.update ''required'' (Str ''True'') full_entry" and field = "''lib''"
      and rest = "[]"] bad(2) repo(2)
  have c: "validate [(''lib'', AList.update ''required'' (Str ''True'') full_entry)] =
     Inl (Fatal (not_validated_msg ''lib''))"
    by simp
  from validate_requires_schema_keys [where entry = full_entry
      and extra = "[(''comment'', Str ''not a key of the schema'')]"] ok
  have d: "required_shape (full_entry @ [(''comment'', Str ''not a key of the schema'')])"
    by simp
  from a b c d show ?thesis by simp
qed

text \<open>
  C5, as the claim states it, fails: the entry with every required key of the right
  type and the further key \<^verbatim>\<open>comment\<close> passes the shape check.
\<close>

theorem extra_key_is_accepted:
  "validate [(''lib'', extra_key_entry)] = Inr () \<and>
   map_of extra_key_entry ''comment'' = Some (Str ''not a key of the schema'') \<and>
   map_of source_schema ''comment'' = None"
  by code_simp

subsection \<open>The over-specified message\<close>

text \<open>
  C7. The entry \<^verbatim>\<open>lib\<close> with tag \<^verbatim>\<open>v1\<close> and branch \<^verbatim>\<open>main\<close> is refused as over
  specified, but the message shows no value: \<^verbatim>\<open>found_refs\<close> is the text of the source
  with its braces, and the tag found before is gone. With a \<^verbatim>\<open>from_submodule\<close> key
  that is false the same conflict is reported in the wording of a submodule conflict.
\<close>

theorem over_specified_message_shows_no_value:
  "check_data keep_url [(''lib'', tag_branch_entry)] =
     Inl (Fatal (over_specified_msg False ''lib''
       (dq @ ''branch = {self[ext_name][self.REPO][self.BRANCH]}'' @ dq @ '', {found_refs}''))) \<and>
   \<not> is_substring ''v1''
       (over_specified_msg False ''lib''
         (dq @ ''branch = {self[ext_name][self.REPO][self.BRANCH]}'' @ dq @ '', {found_refs}'')) \<and>
   \<not> is_substring ''main''
       (over_specified_msg False ''lib''
         (dq @ ''branch = {self[ext_name][self.REPO][self.BRANCH]}'' @ dq @ '', {found_refs}'')) \<and>
   check_data keep_url [(''lib'', tag_branch_entry @ [(''from_submodule'', Bool False)])] =
     Inl (Fatal (over_specified_msg True ''lib''
       (dq @ ''branch = {self[ext_name][self.REPO][self.BRANCH]}'' @ dq @ '', {found_refs}'')))"
  by code_simp

subsection \<open>The second phase and the from-submodule key\<close>

lemma has_key_update: "has_key (AList.update k v d) k' \<longleftrightarrow> k' = k \<or> has_key d k'"
  by (simp add: has_key_def update_conv')

lemma has_key_set_default: "has_key (set_default k v d) k' \<longleftrightarrow> k' = k \<or> has_key d k'"
  by (auto simp: set_default_def has_key_update)

lemma map_of_set_default:
  "map_of (set_default k v d) k' = (if k' = k \<and> map_of d k = None then Some v else map_of d k')"
  by (auto simp: set_default_def has_key_def update_conv')

lemma setitem_in_Inr:
  "setitem_in k v repo = Inr repo' \<longleftrightarrow> (\<exists>d. repo = Dict d \<and> repo' = Dict (AList.update k v d))"
  by (cases repo) (auto simp: setitem_in_def)

lemma getitem_Inr: "getitem d k = Inr v \<longleftrightarrow> map_of d k = Some v"
  by (simp add: getitem_def split: option.splits)

lemma repo_config_Some:
  assumes "repo_config_from_submodule create env p field = Inr (Some repo_url, Some repo_path, Some ref_hash)"
  shows "\<exists>submod_desc ext ext_repo.
       load_submod_desc create env p field = Inr submod_desc \<and>
       map_of submod_desc field = Some ext \<and> get_repo ext = Inr ext_repo \<and>
       map_of ext_repo REPO_URL = Some repo_url \<and> map_of ext PATH = Some repo_path \<and>
       map_of ext_repo HASH = Some ref_hash"
proof -
  from assms obtain sd where sd: "load_submod_desc create env p field = Inr sd"
    and rest: "(case map_of sd field of
         None \<Rightarrow> Inr (None, None, None)
       | Some ext \<Rightarrow>
           bind (get_repo ext) (\<lambda>ext_repo.
           bind (getitem ext_repo REPO_URL) (\<lambda>repo_url.
           bind (getitem ext PATH) (\<lambda>repo_path.
           bind (getitem ext_repo HASH) (\<lambda>ref_hash.
             Inr (Some repo_url, Some repo_path, Some ref_hash)))))) =
         Inr (Some repo_url, Some repo_path, Some ref_hash)"
    by (auto simp: repo_config_from_submodule_def bind_Inr_iff)
  from rest obtain ext where ext: "map_of sd field = Some ext"
    by (cases "map_of sd field") auto
  from rest ext obtain er where "get_repo ext = Inr er" "map_of er REPO_URL = Some repo_url"
    "map_of ext PATH = Some repo_path" "map_of er HASH = Some ref_hash"
    by (auto simp: bind_Inr_iff getitem_Inr)
  with sd ext show ?thesis by blast
qed

lemma check_optional_entry_submodule:
  assumes "has_key entry SUBMODULE"
  shows "check_optional_entry parent env field entry =
     bind (getitem (set_default EXTERNALS EMPTY_STR entry) REPO) (\<lambda>repo.
     bind (fill_repo repo) (\<lambda>repo.
       case parent of
         None \<Rightarrow> Inl (Fatal (no_parent_msg field))
       | Some (p, create) \<Rightarrow>
           if pr_protocol p \<noteq> PROTOCOL_GIT
           then Inl (Fatal (parent_protocol_msg (pr_protocol p)))
           else bind (repo_config_from_submodule create env p field) (\<lambda>args.
                  case args of
                    (Some repo_url, Some repo_path, Some ref_hash) \<Rightarrow>
                      bind (setitem_in REPO_URL repo_url repo) (\<lambda>repo'.
                      bind (setitem_in HASH ref_hash repo') (\<lambda>repo'.
                        Inr (AList.update PATH repo_path
                              (AList.update REPO repo'
                                (AList.update REPO repo (set_default EXTERNALS EMPTY_STR entry))))))
                  | _ \<Rightarrow> Inl (Fatal (not_in_gitmodules_msg field)))))"
  using assms
  by (simp add: check_optional_entry_def Let_def has_key_update has_key_set_default)

lemma check_optional_entry_success:
  assumes "check_optional_entry parent env field entry = Inr entry'" and "has_key entry SUBMODULE"
  shows "\<exists>p create submod_desc ext ext_repo repo_url repo_path ref_hash repo'.
     parent = Some (p, create) \<and> pr_protocol p = PROTOCOL_GIT \<and>
     load_submod_desc create env p field = Inr submod_desc \<and>
     map_of submod_desc field = Some ext \<and> get_repo ext = Inr ext_repo \<and>
     map_of ext_repo REPO_URL = Some repo_url \<and> map_of ext PATH = Some repo_path \<and>
     map_of ext_repo HASH = Some ref_hash \<and>
     map_of entry' REPO = Some (Dict repo') \<and>
     map_of repo' REPO_URL = Some repo_url \<and> map_of repo' HASH = Some ref_hash \<and>
     map_of entry' PATH = Some repo_path"
proof -
  from assms obtain repo0 repo1 where
    r1: "fill_repo repo0 = Inr repo1" and
    body: "(case parent of
         None \<Rightarrow> Inl (Fatal (no_parent_msg field))
       | Some (p, create) \<Rightarrow>
           if pr_protocol p \<noteq> PROTOCOL_GIT
           then Inl (Fatal (parent_protocol_msg (pr_protocol p)))
           else bind (repo_config_from_submodule create env p field) (\<lambda>args.
                  case args of
                    (Some repo_url, Some repo_path, Some ref_hash) \<Rightarrow>
                      bind (setitem_in REPO_URL repo_url repo1) (\<lambda>repo'.
                      bind (setitem_in HASH ref_hash repo') (\<lambda>repo'.
                        Inr (AList.update PATH repo_path
                              (AList.update REPO repo'
                                (AList.update REPO repo1 (set_default EXTERNALS EMPTY_STR entry))))))
                  | _ \<Rightarrow> Inl (Fatal (not_in_gitmodules_msg field)))) = Inr entry'"
    by (auto simp: check_optional_entry_submodule bind_Inr_iff)
  from body obtain p create where parent: "parent = Some (p, create)"
    by (cases parent) auto
  from body parent have git: "pr_protocol p = PROTOCOL_GIT"
    by (auto split: if_splits)
  from body parent git obtain args where
    args: "repo_config_from_submodule create env p field = Inr args" and
    rest: "(case args of
              (Some repo_url, Some repo_path, Some ref_hash) \<Rightarrow>
                bind (setitem_in REPO_URL repo_url repo1) (\<lambda>repo'.
                bind (setitem_in HASH ref_hash repo') (\<lambda>repo'.
                  Inr (AList.update PATH repo_path
                        (AList.update REPO repo'
                          (AList.update REPO repo1 (set_default EXTERNALS EMPTY_STR entry))))))
            | _ \<Rightarrow> Inl (Fatal (not_in_gitmodules_msg field))) = Inr entry'"
    by (auto simp: bind_Inr_iff)
  from rest obtain repo_url repo_path ref_hash where
    a: "args = (Some repo_url, Some repo_path, Some ref_hash)"
    by (auto split: prod.splits option.splits)
  from rest a obtain d1 where d1: "repo1 = Dict d1" and
    e': "entry' = AList.update PATH repo_path
           (AList.update REPO (Dict (AList.update HASH ref_hash (AList.update REPO_URL repo_url d1)))
             (AList.update REPO repo1 (set_default EXTERNALS EMPTY_STR entry)))"
    by (auto simp: bind_Inr_iff setitem_in_Inr)
  have ne: "PATH \<noteq> REPO" "HASH \<noteq> REPO_URL"
    by (simp_all add: kw_defs)
  from e' ne have out:
    "map_of entry' REPO = Some (Dict (AList.update HASH ref_hash (AList.update REPO_URL repo_url d1)))"
    "map_of entry' PATH = Some repo_path"
    by (simp_all add: update_conv')
  have vals: "map_of (AList.update HASH ref_hash (AList.update REPO_URL repo_url d1)) REPO_URL = Some repo_url"
    "map_of (AList.update HASH ref_hash (AList.update REPO_URL repo_url d1)) HASH = Some ref_hash"
    using ne by (simp_all add: update_conv')
  from repo_config_Some [OF args [unfolded a]] parent git out vals show ?thesis
    by blast
qed

lemma set_default_in_Dict: "set_default_in k v (Dict d) = Inr (Dict (set_default k v d))"
  by (simp add: set_default_in_def)

lemma set_default_keeps: "map_of d k' = Some v' \<Longrightarrow> map_of (set_default k v d) k' = Some v'"
  by (auto simp: map_of_set_default)

lemma fill_repo_Dict_eq:
  "fill_repo (Dict d) =
     Inr (Dict (set_default SPARSE EMPTY_STR (set_default REPO_URL EMPTY_STR
           (set_default HASH EMPTY_STR (set_default BRANCH EMPTY_STR
             (set_default TAG EMPTY_STR d))))))"
  by (simp add: fill_repo_def set_default_in_Dict)

lemma fill_repo_Dict:
  "\<exists>d'. fill_repo (Dict d) = Inr (Dict d') \<and> (\<forall>k v. map_of d k = Some v \<longrightarrow> map_of d' k = Some v)"
  unfolding fill_repo_Dict_eq by (blast intro: set_default_keeps)

lemma getitem_repo_default:
  "map_of entry REPO = Some v \<Longrightarrow> getitem (set_default EXTERNALS EMPTY_STR entry) REPO = Inr v"
  by (simp add: getitem_Inr map_of_set_default kw_defs)

lemma check_optional_entry_no_parent:
  assumes "has_key entry SUBMODULE" and "\<exists>repo. map_of entry REPO = Some (Dict repo)"
  shows "check_optional_entry None env field entry = Inl (Fatal (no_parent_msg field))"
proof -
  from assms(2) obtain repo where repo: "map_of entry REPO = Some (Dict repo)" by blast
  from fill_repo_Dict [of repo] obtain d' where "fill_repo (Dict repo) = Inr (Dict d')" by blast
  with assms(1) getitem_repo_default [OF repo] show ?thesis
    by (simp add: check_optional_entry_submodule)
qed

lemma check_optional_entry_parent_protocol:
  assumes "has_key entry SUBMODULE" and "\<exists>repo. map_of entry REPO = Some (Dict repo)"
    and "pr_protocol p \<noteq> PROTOCOL_GIT"
  shows "check_optional_entry (Some (p, create)) env field entry =
           Inl (Fatal (parent_protocol_msg (pr_protocol p)))"
proof -
  from assms(2) obtain repo where repo: "map_of entry REPO = Some (Dict repo)" by blast
  from fill_repo_Dict [of repo] obtain d' where "fill_repo (Dict repo) = Inr (Dict d')" by blast
  with assms(1,3) getitem_repo_default [OF repo] show ?thesis
    by (simp add: check_optional_entry_submodule)
qed

lemma check_optional_entry_default:
  assumes "\<not> has_key entry SUBMODULE" and "map_of entry REPO = Some (Dict repo)"
  shows "\<exists>entry' repo'. check_optional_entry parent env field entry = Inr entry' \<and>
           map_of entry' SUBMODULE = Some (Bool False) \<and>
           map_of entry' REPO = Some (Dict repo') \<and>
           (\<forall>k v. map_of repo k = Some v \<longrightarrow> map_of repo' k = Some v)"
proof -
  from fill_repo_Dict [of repo] obtain d' where d': "fill_repo (Dict repo) = Inr (Dict d')"
    and keep: "\<forall>k v. map_of repo k = Some v \<longrightarrow> map_of d' k = Some v" by blast
  have ne: "SUBMODULE \<noteq> REPO" "SUBMODULE \<noteq> EXTERNALS" by (simp_all add: kw_defs)
  from assms(1) ne d' getitem_repo_default [OF assms(2)]
  have "check_optional_entry parent env field entry =
          Inr (AList.update SUBMODULE (Bool False)
                (AList.update REPO (Dict d') (set_default EXTERNALS EMPTY_STR entry)))"
    by (simp add: check_optional_entry_def Let_def has_key_update has_key_set_default)
  moreover from ne have "map_of (AList.update SUBMODULE (Bool False)
                (AList.update REPO (Dict d') (set_default EXTERNALS EMPTY_STR entry))) REPO = Some (Dict d')"
    by (simp add: update_conv')
  ultimately show ?thesis using keep by (simp add: update_conv')
qed

lemma check_optional_first_submodule:
  assumes "\<And>field entry. has_key entry SUBMODULE \<Longrightarrow> \<exists>repo. map_of entry REPO = Some (Dict repo) \<Longrightarrow>
             check_optional_entry parent env field entry = Inl (Fatal (msg field))"
  shows "list_all (\<lambda>fe. \<exists>repo. map_of (snd fe) REPO = Some (Dict repo)) desc \<Longrightarrow>
         \<exists>fe \<in> set desc. has_key (snd fe) SUBMODULE \<Longrightarrow>
         \<exists>fe \<in> set desc. has_key (snd fe) SUBMODULE \<and>
            check_optional parent env desc = Inl (Fatal (msg (fst fe)))"
proof (induction desc)
  case Nil
  then show ?case by simp
next
  case (Cons fe desc)
  obtain field entry where fe: "fe = (field, entry)" by (cases fe)
  from Cons.prems(1) fe obtain repo where repo: "map_of entry REPO = Some (Dict repo)"
    by auto
  show ?case
  proof (cases "has_key entry SUBMODULE")
    case True
    have "check_optional_entry parent env field entry = Inl (Fatal (msg field))"
      using assms True repo by blast
    then have "check_optional parent env (fe # desc) = Inl (Fatal (msg (fst fe)))"
      using fe by simp
    moreover have "has_key (snd fe) SUBMODULE" "fe \<in> set (fe # desc)"
      using True fe by simp_all
    ultimately show ?thesis by blast
  next
    case False
    from check_optional_entry_default [OF False repo, of parent env field]
    obtain entry' where e: "check_optional_entry parent env field entry = Inr entry'" by blast
    from False Cons.prems(2) fe have ex: "\<exists>fe \<in> set desc. has_key (snd fe) SUBMODULE"
      by auto
    from Cons.prems(1) have all: "list_all (\<lambda>fe. \<exists>repo. map_of (snd fe) REPO = Some (Dict repo)) desc"
      by simp
    from Cons.IH [OF all ex] obtain fe' where fe': "fe' \<in> set desc" "has_key (snd fe') SUBMODULE"
      "check_optional parent env desc = Inl (Fatal (msg (fst fe')))"
      by blast
    from fe'(3) e fe have "check_optional parent env (fe # desc) = Inl (Fatal (msg (fst fe')))"
      by simp
    moreover from fe'(1) have "fe' \<in> set (fe # desc)" by simp
    ultimately show ?thesis using fe'(2) by blast
  qed
qed

lemma check_optional_member:
  "check_optional parent env desc = Inr desc' \<Longrightarrow> (field, entry) \<in> set desc \<Longrightarrow>
     \<exists>entry'. (field, entry') \<in> set desc' \<and> check_optional_entry parent env field entry = Inr entry'"
proof (induction desc arbitrary: desc')
  case Nil
  then show ?case by simp
next
  case (Cons fe desc)
  obtain f e where fe: "fe = (f, e)" by (cases fe)
  from Cons.prems(1) fe obtain e' rest' where e': "check_optional_entry parent env f e = Inr e'"
    and rest': "check_optional parent env desc = Inr rest'" and d': "desc' = (f, e') # rest'"
    by (auto simp: bind_Inr_iff)
  show ?case
  proof (cases "(field, entry) = (f, e)")
    case True
    with e' d' show ?thesis by auto
  next
    case False
    with Cons.prems(2) fe have "(field, entry) \<in> set desc" by auto
    from Cons.IH [OF rest' this] d' show ?thesis by auto
  qed
qed

text \<open>
  C9. A \<^verbatim>\<open>from_submodule\<close> key that is present counts in the second phase whatever
  its value. In a description whose entries have their \<^verbatim>\<open>repo\<close> dictionaries and
  one of which has the key, the phase ends in the fatal \<^verbatim>\<open>No parent submodule\<close>
  error when there is no parent, and in the fatal \<^verbatim>\<open>does not support submodules\<close>
  error when the parent's protocol is not git. When the phase succeeds, every entry
  with the key has a git parent whose manifest description holds an external of the
  same name, and the entry comes out with that external's \<^verbatim>\<open>repo_url\<close>, \<^verbatim>\<open>hash\<close>
  and \<^verbatim>\<open>local_path\<close>, whatever url it had. An entry without the key needs no
  parent: it gets \<^verbatim>\<open>from_submodule\<close> false and keeps what its \<^verbatim>\<open>repo\<close> held.
\<close>

theorem from_submodule_key_takes_parent_manifest:
  "(list_all (\<lambda>fe. \<exists>repo. map_of (snd fe) REPO = Some (Dict repo)) desc \<and>
    (field, entry) \<in> set desc \<and> has_key entry SUBMODULE \<longrightarrow>
      (\<exists>fe \<in> set desc. has_key (snd fe) SUBMODULE \<and>
         check_optional None env desc = Inl (Fatal (no_parent_msg (fst fe))))) \<and>
   (list_all (\<lambda>fe. \<exists>repo. map_of (snd fe) REPO = Some (Dict repo)) desc \<and>
    (field, entry) \<in> set desc \<and> has_key entry SUBMODULE \<and> pr_protocol p \<noteq> PROTOCOL_GIT \<longrightarrow>
      (\<exists>fe \<in> set desc. has_key (snd fe) SUBMODULE \<and>
         check_optional (Some (p, create)) env desc =
           Inl (Fatal (parent_protocol_msg (pr_protocol p))))) \<and>
   (check_optional parent env desc = Inr desc' \<and>
    (field, entry) \<in> set desc \<and> has_key entry SUBMODULE \<longrightarrow>
      (\<exists>p create submod_desc ext ext_repo repo_url repo_path ref_hash entry' repo'.
         parent = Some (p, create) \<and> pr_protocol p = PROTOCOL_GIT \<and>
         load_submod_desc create env p field = Inr submod_desc \<and>
         map_of submod_desc field = Some ext \<and> get_repo ext = Inr ext_repo \<and>
         map_of ext_repo REPO_URL = Some repo_url \<and> map_of ext PATH = Some repo_path \<and>
         map_of ext_repo HASH = Some ref_hash \<and>
         (field, entry') \<in> set desc' \<and>
         check_optional_entry parent env field entry = Inr entry' \<and>
         map_of entry' REPO = Some (Dict repo') \<and>
         map_of repo' REPO_URL = Some repo_url \<and> map_of repo' HASH = Some ref_hash \<and>
         map_of entry' PATH = Some repo_path)) \<and>
   (\<not> has_key entry SUBMODULE \<and> map_of entry REPO = Some (Dict repo) \<longrightarrow>
      (\<exists>entry' repo'.
         check_optional_entry None env field entry = Inr entry' \<and>
         map_of entry' SUBMODULE = Some (Bool False) \<and>
         map_of entry' REPO = Some (Dict repo') \<and>
         (\<forall>k v. map_of repo k = Some v \<longrightarrow> map_of repo' k = Some v)))"
proof (intro conjI impI)
  assume a: "list_all (\<lambda>fe. \<exists>repo. map_of (snd fe) REPO = Some (Dict repo)) desc \<and>
    (field, entry) \<in> set desc \<and> has_key entry SUBMODULE"
  then have ex: "\<exists>fe \<in> set desc. has_key (snd fe) SUBMODULE"
    by force
  from a ex show "\<exists>fe \<in> set desc. has_key (snd fe) SUBMODULE \<and>
         check_optional None env desc = Inl (Fatal (no_parent_msg (fst fe)))"
    by (intro check_optional_first_submodule check_optional_entry_no_parent) simp_all
next
  assume a: "list_all (\<lambda>fe. \<exists>repo. map_of (snd fe) REPO = Some (Dict repo)) desc \<and>
    (field, entry) \<in> set desc \<and> has_key entry SUBMODULE \<and> pr_protocol p \<noteq> PROTOCOL_GIT"
  then have ex: "\<exists>fe \<in> set desc. has_key (snd fe) SUBMODULE"
    by force
  have entry_level: "check_optional_entry (Some (p, create)) env f e =
      Inl (Fatal ((\<lambda>_. parent_protocol_msg (pr_protocol p)) f))"
    if "has_key e SUBMODULE" "\<exists>repo. map_of e REPO = Some (Dict repo)" for f e
    using that a by (simp add: check_optional_entry_parent_protocol)
  from a have all: "list_all (\<lambda>fe. \<exists>repo. map_of (snd fe) REPO = Some (Dict repo)) desc"
    by simp
  from check_optional_first_submodule [where msg = "\<lambda>_. parent_protocol_msg (pr_protocol p)",
      OF entry_level all ex]
  show "\<exists>fe \<in> set desc. has_key (snd fe) SUBMODULE \<and>
         check_optional (Some (p, create)) env desc =
           Inl (Fatal (parent_protocol_msg (pr_protocol p)))"
    by simp
next
  assume a: "check_optional parent env desc = Inr desc' \<and>
    (field, entry) \<in> set desc \<and> has_key entry SUBMODULE"
  with check_optional_member [of parent env desc desc' field entry]
  obtain entry' where e': "(field, entry') \<in> set desc'"
    "check_optional_entry parent env field entry = Inr entry'"
    by blast
  from check_optional_entry_success [OF e'(2)] a e'
  show "\<exists>p create submod_desc ext ext_repo repo_url repo_path ref_hash entry' repo'.
         parent = Some (p, create) \<and> pr_protocol p = PROTOCOL_GIT \<and>
         load_submod_desc create env p field = Inr submod_desc \<and>
         map_of submod_desc field = Some ext \<and> get_repo ext = Inr ext_repo \<and>
         map_of ext_repo REPO_URL = Some repo_url \<and> map_of ext PATH = Some repo_path \<and>
         map_of ext_repo HASH = Some ref_hash \<and>
         (field, entry') \<in> set desc' \<and>
         check_optional_entry parent env field entry = Inr entry' \<and>
         map_of entry' REPO = Some (Dict repo') \<and>
         map_of repo' REPO_URL = Some repo_url \<and> map_of repo' HASH = Some ref_hash \<and>
         map_of entry' PATH = Some repo_path"
    by blast
next
  assume "\<not> has_key entry SUBMODULE \<and> map_of entry REPO = Some (Dict repo)"
  then show "\<exists>entry' repo'.
         check_optional_entry None env field entry = Inr entry' \<and>
         map_of entry' SUBMODULE = Some (Bool False) \<and>
         map_of entry' REPO = Some (Dict repo') \<and>
         (\<forall>k v. map_of repo k = Some v \<longrightarrow> map_of repo' k = Some v)"
    using check_optional_entry_default by blast
qed

theorem from_submodule_key_takes_parent_manifest_witness:
  "check_optional None lib_env [(''lib'', submodule_false_entry)] =
     Inl (Fatal (no_parent_msg ''lib'')) \<and>
   check_optional (Some (svn_parent, create_from_manifest keep_url lib_env)) lib_env
       [(''lib'', submodule_false_entry)] =
     Inl (Fatal (parent_protocol_msg ''svn'')) \<and>
   check_user_input keep_url (with_manifest keep_url lib_env (Some git_parent)) lib_env
       [(''lib'', submodule_false_entry)] =
     Inr [(''lib'',
       [(''required'', Bool True), (''local_path'', Str ''src/lib''),
        (''repo'', Dict [(''protocol'', Str ''git''), (''repo_url'', Str ''https://x/lib.git''),
                         (''tag'', Str ''v1''), (''branch'', Str []), (''hash'', Str ''abc123''),
                         (''sparse'', Str [])]),
        (''from_submodule'', Bool False), (''externals'', Str [])])] \<and>
   (\<exists>submod_desc ext ext_repo repo_url repo_path ref_hash entry' repo'.
      load_submod_desc (create_from_manifest keep_url lib_env) lib_env git_parent ''lib'' =
        Inr submod_desc \<and>
      map_of submod_desc ''lib'' = Some ext \<and> get_repo ext = Inr ext_repo \<and>
      map_of ext_repo REPO_URL = Some repo_url \<and> map_of ext PATH = Some repo_path \<and>
      map_of ext_repo HASH = Some ref_hash \<and>
      check_optional_entry (with_manifest keep_url lib_env (Some git_parent)) lib_env ''lib''
        submodule_false_entry = Inr entry' \<and>
      map_of entry' REPO = Some (Dict repo') \<and>
      map_of repo' REPO_URL = Some repo_url \<and> map_of repo' HASH = Some ref_hash \<and>
      map_of entry' PATH = Some repo_path) \<and>
   (\<exists>entry' repo'.
      check_optional_entry None lib_env ''lib'' tag_entry = Inr entry' \<and>
      map_of entry' SUBMODULE = Some (Bool False) \<and>
      map_of entry' REPO = Some (Dict repo') \<and>
      map_of repo' REPO_URL = Some (Str ''https://mine/lib.git''))"
proof -
  have repos: "list_all (\<lambda>fe. \<exists>repo. map_of (snd fe) REPO = Some (Dict repo))
                 [(''lib'', submodule_false_entry)]"
    by (simp add: submodule_false_entry_def tag_entry_def REPO_def)
  have key: "has_key submodule_false_entry SUBMODULE" "\<not> has_key tag_entry SUBMODULE"
    by code_simp+
  have svn: "pr_protocol svn_parent \<noteq> PROTOCOL_GIT" "pr_protocol svn_parent = ''svn''"
    by (simp_all add: svn_parent_def PROTOCOL_GIT_def)
  have parent: "with_manifest keep_url lib_env (Some git_parent) =
                  Some (git_parent, create_from_manifest keep_url lib_env)"
    by (simp add: with_manifest_def)
  have phase: "check_optional (with_manifest keep_url lib_env (Some git_parent)) lib_env
       [(''lib'', submodule_false_entry)] =
     Inr [(''lib'',
       [(''required'', Bool True), (''local_path'', Str ''src/lib''),
        (''repo'', Dict [(''protocol'', Str ''git''), (''repo_url'', Str ''https://x/lib.git''),
                         (''tag'', Str ''v1''), (''branch'', Str []), (''hash'', Str ''abc123''),
                         (''sparse'', Str [])]),
        (''from_submodule'', Bool False), (''externals'', Str [])])]"
    by code_simp
  have pipeline: "check_user_input keep_url (with_manifest keep_url lib_env (Some git_parent)) lib_env
       [(''lib'', submodule_false_entry)] =
     Inr [(''lib'',
       [(''required'', Bool True), (''local_path'', Str ''src/lib''),
        (''repo'', Dict [(''protocol'', Str ''git''), (''repo_url'', Str ''https://x/lib.git''),
                         (''tag'', Str ''v1''), (''branch'', Str []), (''hash'', Str ''abc123''),
                         (''sparse'', Str [])]),
        (''from_submodule'', Bool False), (''externals'', Str [])])]"
    by code_simp
  have url: "map_of tag_entry REPO =
      Some (Dict [(''protocol'', Str ''git''), (''repo_url'', Str ''https://mine/lib.git''),
                  (''tag'', Str ''v1'')])"
    by (simp add: tag_entry_def REPO_def)
  from from_submodule_key_takes_parent_manifest [where desc = "[(''lib'', submodule_false_entry)]"
      and field = "''lib''" and entry = submodule_false_entry and env = lib_env] repos key
  have a: "check_optional None lib_env [(''lib'', submodule_false_entry)] =
     Inl (Fatal (no_parent_msg ''lib''))"
    by simp
  from from_submodule_key_takes_parent_manifest [where desc = "[(''lib'', submodule_false_entry)]"
      and field = "''lib''" and entry = submodule_false_entry and env = lib_env
      and p = svn_parent and create = "create_from_manifest keep_url lib_env"] repos key svn
  have b: "check_optional (Some (svn_parent, create_from_manifest keep_url lib_env)) lib_env
       [(''lib'', submodule_false_entry)] = Inl (Fatal (parent_protocol_msg ''svn''))"
    by simp
  from phase obtain desc' where desc': "check_optional (with_manifest keep_url lib_env (Some git_parent))
      lib_env [(''lib'', submodule_false_entry)] = Inr desc'"
    by simp
  from from_submodule_key_takes_parent_manifest [where desc = "[(''lib'', submodule_false_entry)]"
      and field = "''lib''" and entry = submodule_false_entry and env = lib_env
      and parent = "with_manifest keep_url lib_env (Some git_parent)" and desc' = desc'] desc' key
  have c: "\<exists>submod_desc ext ext_repo repo_url repo_path ref_hash entry' repo'.
      load_submod_desc (create_from_manifest keep_url lib_env) lib_env git_parent ''lib'' =
        Inr submod_desc \<and>
      map_of submod_desc ''lib'' = Some ext \<and> get_repo ext = Inr ext_repo \<and>
      map_of ext_repo REPO_URL = Some repo_url \<and> map_of ext PATH = Some repo_path \<and>
      map_of ext_repo HASH = Some ref_hash \<and>
      check_optional_entry (with_manifest keep_url lib_env (Some git_parent)) lib_env ''lib''
        submodule_false_entry = Inr entry' \<and>
      map_of entry' REPO = Some (Dict repo') \<and>
      map_of repo' REPO_URL = Some repo_url \<and> map_of repo' HASH = Some ref_hash \<and>
      map_of entry' PATH = Some repo_path"
    unfolding parent by (simp del: check_optional.simps) blast
  from from_submodule_key_takes_parent_manifest [where entry = tag_entry and env = lib_env
      and field = "''lib''"
      and repo = "[(''protocol'', Str ''git''), (''repo_url'', Str ''https://mine/lib.git''),
                  (''tag'', Str ''v1'')]"] key(2) url
  obtain entry' repo' where e: "check_optional_entry None lib_env ''lib'' tag_entry = Inr entry'"
    "map_of entry' SUBMODULE = Some (Bool False)" "map_of entry' REPO = Some (Dict repo')"
    and keep: "\<forall>k v. map_of [(''protocol'', Str ''git''), (''repo_url'', Str ''https://mine/lib.git''),
                  (''tag'', Str ''v1'')] k = Some v \<longrightarrow> map_of repo' k = Some v"
    by blast
  have "map_of [(''protocol'', Str ''git''), (''repo_url'', Str ''https://mine/lib.git''),
                  (''tag'', Str ''v1'')] REPO_URL = Some (Str ''https://mine/lib.git'')"
    by (simp add: REPO_URL_def)
  with keep have "map_of repo' REPO_URL = Some (Str ''https://mine/lib.git'')"
    by blast
  with e have d: "\<exists>entry' repo'.
      check_optional_entry None lib_env ''lib'' tag_entry = Inr entry' \<and>
      map_of entry' SUBMODULE = Some (Bool False) \<and>
      map_of entry' REPO = Some (Dict repo') \<and>
      map_of repo' REPO_URL = Some (Str ''https://mine/lib.git'')"
    by blast
  from a b pipeline c d show ?thesis by blast
qed

subsection \<open>The first phase and the exclusivity rule\<close>














end
